theory Spec2Isabelle
  imports Complex_Main
begin

section \<open>Python string primitives\<close>

text \<open>
  A Python \<open>str\<close> is modelled as a \<open>string\<close> whose characters are the code points
  0..255 (Latin-1). On that range the predicates below are exactly
  \<open>str.isspace\<close>, \<open>str.isalpha\<close> and \<open>str.lower\<close> of CPython 3; text with code points
  above 255 is outside the model.
\<close>

definition isspace :: "char \<Rightarrow> bool" where
  "isspace c =
     (let n = (of_char c :: nat)
      in (9 \<le> n \<and> n \<le> 13) \<or> (28 \<le> n \<and> n \<le> 32) \<or> n = 133 \<or> n = 160)"

definition isalpha :: "char \<Rightarrow> bool" where
  "isalpha c =
     (let n = (of_char c :: nat)
      in (65 \<le> n \<and> n \<le> 90) \<or> (97 \<le> n \<and> n \<le> 122) \<or> n = 170 \<or> n = 181 \<or> n = 186 \<or>
         (192 \<le> n \<and> n \<le> 214) \<or> (216 \<le> n \<and> n \<le> 246) \<or> (248 \<le> n \<and> n \<le> 255))"

definition lower_chr :: "char \<Rightarrow> char" where
  \<comment> \<open>the cased code points below 256 are A-Z and 0xC0-0xDE without 0xD7; their lower-case
     form is 32 higher, which sets bit 5\<close>
  "lower_chr c =
     (let n = (of_char c :: nat)
      in if (65 \<le> n \<and> n \<le> 90) \<or> (192 \<le> n \<and> n \<le> 222 \<and> n \<noteq> 215)
         then (case c of Char b0 b1 b2 b3 b4 b5 b6 b7 \<Rightarrow> Char b0 b1 b2 b3 b4 True b6 b7)
         else c)"

definition str_lower :: "string \<Rightarrow> string" where
  \<comment> \<open>\<open>s.lower()\<close>\<close>
  "str_lower s = map lower_chr s"

definition str_replace :: "char \<Rightarrow> char \<Rightarrow> string \<Rightarrow> string" where
  \<comment> \<open>\<open>s.replace(a, b)\<close> for one-character \<open>a\<close> and \<open>b\<close>\<close>
  "str_replace a b s = map (\<lambda>c. if c = a then b else c) s"

fun split_from :: "string \<Rightarrow> string \<Rightarrow> string list" where
  "split_from cur [] = (if cur = [] then [] else [cur])"
| "split_from cur (c # cs) =
     (if isspace c then (if cur = [] then split_from [] cs else cur # split_from [] cs)
      else split_from (cur @ [c]) cs)"

definition str_split :: "string \<Rightarrow> string list" where
  \<comment> \<open>\<open>s.split()\<close>: the maximal runs of non-whitespace characters\<close>
  "str_split s = split_from [] s"

definition str_strip :: "string \<Rightarrow> string" where
  \<comment> \<open>\<open>s.strip()\<close>\<close>
  "str_strip s = rev (dropWhile isspace (rev (dropWhile isspace s)))"

fun starts_with :: "string \<Rightarrow> string \<Rightarrow> bool" where
  "starts_with [] t = True"
| "starts_with (a # s) [] = False"
| "starts_with (a # s) (b # t) = (a = b \<and> starts_with s t)"

fun str_in :: "string \<Rightarrow> string \<Rightarrow> bool" where
  \<comment> \<open>\<open>s in t\<close>: \<open>s\<close> occurs in \<open>t\<close> as a contiguous substring\<close>
  "str_in s [] = (s = [])"
| "str_in s (b # t) = (starts_with s (b # t) \<or> str_in s t)"

section \<open>Data model\<close>

text \<open>
  The values \<open>json.loads\<close> produces, which are also the values a result dict may hold
  under \<open>confidence\<close> and \<open>matched_from\<close>. A float literal of the source is the number
  its decimal denotes. \<open>JObject\<close> holds the items of a dict in insertion order.
\<close>

datatype json =
    JNull
  | JBool bool
  | JNumber real
  | JString string
  | JArray "json list"
  | JObject "(string \<times> json) list"

text \<open>\<open>SignData\<close>: one vocabulary entry; the two animation keys are absent from most entries.\<close>

record sign_data =
  word :: string
  category :: string
  synonyms :: "string list"
  description :: string
  animation_type :: "string option"
  animation_data :: "(string \<times> string) list option"

text \<open>
  The dict built for one match: the entry's keys, \<open>confidence\<close> and \<open>matched_from\<close>,
  \<open>letters\<close> for a fingerspelled one, and the keys the media enrichment may add.
\<close>

record match_result = sign_data +
  letters :: "string option"
  confidence :: json
  matched_from :: json
  video_url :: "string option"
  letter_videos :: "string option list option"

section \<open>Vocabulary table\<close>

definition vocab_greetings :: "(string \<times> sign_data) list" where
  \<comment> \<open>\<open># Greetings\<close>\<close>
  "vocab_greetings = [
    (''hello'',
     \<lparr>word = ''hello'', category = ''greetings'',
      synonyms = [''hi'', ''hey'', ''greetings''],
      description = ''Wave hand near face'',
      animation_type = Some (''css''), animation_data = Some ([(''class'', ''wave-animation'')])\<rparr>),
    (''goodbye'',
     \<lparr>word = ''goodbye'', category = ''greetings'',
      synonyms = [''bye'', ''farewell'', ''see you'', ''later''],
      description = ''Wave hand away from body'',
      animation_type = None, animation_data = None\<rparr>),
    (''thank you'',
     \<lparr>word = ''thank you'', category = ''greetings'',
      synonyms = [''thanks'', ''appreciate'', ''grateful''],
      description = ''Hand moves from chin outward'',
      animation_type = None, animation_data = None\<rparr>),
    (''please'',
     \<lparr>word = ''please'', category = ''greetings'',
      synonyms = [''kindly''],
      description = ''Circular motion on chest'',
      animation_type = None, animation_data = None\<rparr>),
    (''sorry'',
     \<lparr>word = ''sorry'', category = ''greetings'',
      synonyms = [''apologize'', ''apologies'', ''my bad''],
      description = ''Fist circles on chest'',
      animation_type = None, animation_data = None\<rparr>),
    (''good morning'',
     \<lparr>word = ''good morning'', category = ''greetings'',
      synonyms = [''morning''],
      description = ''Point to sky then wave'',
      animation_type = None, animation_data = None\<rparr>),
    (''good afternoon'',
     \<lparr>word = ''good afternoon'', category = ''greetings'',
      synonyms = [''afternoon''],
      description = ''Point to sun then wave'',
      animation_type = None, animation_data = None\<rparr>),
    (''good evening'',
     \<lparr>word = ''good evening'', category = ''greetings'',
      synonyms = [''evening''],
      description = ''Point to horizon then wave'',
      animation_type = None, animation_data = None\<rparr>),
    (''good night'',
     \<lparr>word = ''good night'', category = ''greetings'',
      synonyms = [''night'', ''sleep well''],
      description = ''Rest head on hands'',
      animation_type = None, animation_data = None\<rparr>),
    (''nice to meet you'',
     \<lparr>word = ''nice to meet you'', category = ''greetings'',
      synonyms = [''pleased to meet you''],
      description = ''Shake hands gesture'',
      animation_type = None, animation_data = None\<rparr>),
    (''how are you'',
     \<lparr>word = ''how are you'', category = ''greetings'',
      synonyms = [''how do you do'', ''how's it going''],
      description = ''Point to self then others'',
      animation_type = None, animation_data = None\<rparr>),
    (''i'm fine'',
     \<lparr>word = ''i'm fine'', category = ''greetings'',
      synonyms = [''i'm good'', ''i'm well'', ''i'm okay''],
      description = ''Thumbs up with smile gesture'',
      animation_type = None, animation_data = None\<rparr>),
    (''have a good day'',
     \<lparr>word = ''have a good day'', category = ''greetings'',
      synonyms = [''have a nice day''],
      description = ''Wave with both hands'',
      animation_type = None, animation_data = None\<rparr>)]"

definition vocab_responses :: "(string \<times> sign_data) list" where
  \<comment> \<open>\<open># Responses\<close>\<close>
  "vocab_responses = [
    (''yes'',
     \<lparr>word = ''yes'', category = ''responses'',
      synonyms = [''yeah'', ''yep'', ''correct'', ''right'', ''affirmative'', ''okay'', ''ok''],
      description = ''Fist nods up and down'',
      animation_type = None, animation_data = None\<rparr>),
    (''no'',
     \<lparr>word = ''no'', category = ''responses'',
      synonyms = [''nope'', ''negative'', ''wrong'', ''incorrect''],
      description = ''Two fingers close to thumb'',
      animation_type = None, animation_data = None\<rparr>),
    (''maybe'',
     \<lparr>word = ''maybe'', category = ''responses'',
      synonyms = [''perhaps'', ''possibly'', ''might''],
      description = ''Hands alternate up and down'',
      animation_type = None, animation_data = None\<rparr>),
    (''understand'',
     \<lparr>word = ''understand'', category = ''responses'',
      synonyms = [''get it'', ''comprehend'', ''got it'', ''clear'', ''makes sense''],
      description = ''Index finger flicks up near forehead'',
      animation_type = None, animation_data = None\<rparr>),
    (''confused'',
     \<lparr>word = ''confused'', category = ''responses'',
      synonyms = [''don't understand'', ''unclear'', ''lost'', ''puzzled''],
      description = ''Curved fingers alternate near forehead'',
      animation_type = None, animation_data = None\<rparr>),
    (''i know'',
     \<lparr>word = ''i know'', category = ''responses'',
      synonyms = [''i understand'', ''got it''],
      description = ''Tap forehead with index finger'',
      animation_type = None, animation_data = None\<rparr>),
    (''i don't know'',
     \<lparr>word = ''i don't know'', category = ''responses'',
      synonyms = [''not sure'', ''uncertain''],
      description = ''Shrug shoulders with palms up'',
      animation_type = None, animation_data = None\<rparr>),
    (''wait'',
     \<lparr>word = ''wait'', category = ''responses'',
      synonyms = [''hold on'', ''just a moment''],
      description = ''Palm facing out, fingers spread'',
      animation_type = None, animation_data = None\<rparr>)]"

definition vocab_actions :: "(string \<times> sign_data) list" where
  \<comment> \<open>\<open># Actions\<close>\<close>
  "vocab_actions = [
    (''question'',
     \<lparr>word = ''question'', category = ''actions'',
      synonyms = [''ask'', ''query'', ''inquire''],
      description = ''Index finger draws question mark'',
      animation_type = None, animation_data = None\<rparr>),
    (''answer'',
     \<lparr>word = ''answer'', category = ''actions'',
      synonyms = [''reply'', ''respond'', ''response''],
      description = ''Index fingers point outward from mouth'',
      animation_type = None, animation_data = None\<rparr>),
    (''help'',
     \<lparr>word = ''help'', category = ''actions'',
      synonyms = [''assist'', ''aid'', ''support''],
      description = ''Thumbs up on flat palm, lift up'',
      animation_type = None, animation_data = None\<rparr>),
    (''repeat'',
     \<lparr>word = ''repeat'', category = ''actions'',
      synonyms = [''again'', ''say again'', ''one more time''],
      description = ''Curved hand flips over'',
      animation_type = None, animation_data = None\<rparr>),
    (''stop'',
     \<lparr>word = ''stop'', category = ''actions'',
      synonyms = [''wait'', ''hold'', ''pause'', ''halt''],
      description = ''Flat hand strikes palm'',
      animation_type = None, animation_data = None\<rparr>),
    (''start'',
     \<lparr>word = ''start'', category = ''actions'',
      synonyms = [''begin'', ''go'', ''commence''],
      description = ''Index finger twists between fingers'',
      animation_type = None, animation_data = None\<rparr>),
    (''finish'',
     \<lparr>word = ''finish'', category = ''actions'',
      synonyms = [''done'', ''complete'', ''end'', ''finished'', ''over''],
      description = ''Open hands flip outward'',
      animation_type = None, animation_data = None\<rparr>),
    (''read'',
     \<lparr>word = ''read'', category = ''actions'',
      synonyms = [''reading''],
      description = ''Two fingers scan across palm'',
      animation_type = None, animation_data = None\<rparr>),
    (''write'',
     \<lparr>word = ''write'', category = ''actions'',
      synonyms = [''writing'', ''note''],
      description = ''Pinched fingers write on palm'',
      animation_type = None, animation_data = None\<rparr>),
    (''listen'',
     \<lparr>word = ''listen'', category = ''actions'',
      synonyms = [''hear'', ''hearing'', ''listening''],
      description = ''Cupped hand to ear'',
      animation_type = None, animation_data = None\<rparr>),
    (''speak'',
     \<lparr>word = ''speak'', category = ''actions'',
      synonyms = [''talk'', ''say'', ''tell'', ''talking'', ''speaking''],
      description = ''Four fingers tap from chin'',
      animation_type = None, animation_data = None\<rparr>),
    (''think'',
     \<lparr>word = ''think'', category = ''actions'',
      synonyms = [''thinking'', ''consider'', ''thought''],
      description = ''Index finger circles at temple'',
      animation_type = None, animation_data = None\<rparr>),
    (''learn'',
     \<lparr>word = ''learn'', category = ''actions'',
      synonyms = [''study'', ''learning'', ''studying''],
      description = ''Fingers pull from palm to forehead'',
      animation_type = None, animation_data = None\<rparr>),
    (''teach'',
     \<lparr>word = ''teach'', category = ''actions'',
      synonyms = [''teaching'', ''instruct'', ''explain''],
      description = ''Both hands pull from forehead outward'',
      animation_type = None, animation_data = None\<rparr>),
    (''work'',
     \<lparr>word = ''work'', category = ''actions'',
      synonyms = [''working'', ''job''],
      description = ''Fists alternate pounding'',
      animation_type = None, animation_data = None\<rparr>),
    (''play'',
     \<lparr>word = ''play'', category = ''actions'',
      synonyms = [''playing'', ''fun''],
      description = ''Fingers wiggle like playing'',
      animation_type = None, animation_data = None\<rparr>),
    (''eat'',
     \<lparr>word = ''eat'', category = ''actions'',
      synonyms = [''eating'', ''food''],
      description = ''Hand to mouth'',
      animation_type = None, animation_data = None\<rparr>),
    (''drink'',
     \<lparr>word = ''drink'', category = ''actions'',
      synonyms = [''drinking''],
      description = ''Tilt hand to mouth'',
      animation_type = None, animation_data = None\<rparr>),
    (''sleep'',
     \<lparr>word = ''sleep'', category = ''actions'',
      synonyms = [''sleeping'', ''rest''],
      description = ''Rest head on hands'',
      animation_type = None, animation_data = None\<rparr>),
    (''walk'',
     \<lparr>word = ''walk'', category = ''actions'',
      synonyms = [''walking''],
      description = ''Two fingers walk on other hand'',
      animation_type = None, animation_data = None\<rparr>),
    (''run'',
     \<lparr>word = ''run'', category = ''actions'',
      synonyms = [''running''],
      description = ''Fingers run quickly'',
      animation_type = None, animation_data = None\<rparr>)]"

definition vocab_people :: "(string \<times> sign_data) list" where
  \<comment> \<open>\<open># People\<close>\<close>
  "vocab_people = [
    (''teacher'',
     \<lparr>word = ''teacher'', category = ''nouns'',
      synonyms = [''instructor'', ''professor'', ''educator''],
      description = ''Teach sign plus person marker'',
      animation_type = None, animation_data = None\<rparr>),
    (''student'',
     \<lparr>word = ''student'', category = ''nouns'',
      synonyms = [''learner'', ''pupil''],
      description = ''Learn sign plus person marker'',
      animation_type = None, animation_data = None\<rparr>),
    (''person'',
     \<lparr>word = ''person'', category = ''nouns'',
      synonyms = [''people'', ''individual'', ''someone''],
      description = ''Point to person'',
      animation_type = None, animation_data = None\<rparr>),
    (''man'',
     \<lparr>word = ''man'', category = ''nouns'',
      synonyms = [''male'', ''guy'', ''boy''],
      description = ''Flat hand strikes forehead'',
      animation_type = None, animation_data = None\<rparr>),
    (''woman'',
     \<lparr>word = ''woman'', category = ''nouns'',
      synonyms = [''female'', ''lady'', ''girl''],
      description = ''Brush hair back'',
      animation_type = None, animation_data = None\<rparr>),
    (''child'',
     \<lparr>word = ''child'', category = ''nouns'',
      synonyms = [''kid'', ''children'', ''baby''],
      description = ''Small height gesture'',
      animation_type = None, animation_data = None\<rparr>),
    (''friend'',
     \<lparr>word = ''friend'', category = ''nouns'',
      synonyms = [''buddy'', ''pal''],
      description = ''Hook fingers together'',
      animation_type = None, animation_data = None\<rparr>),
    (''family'',
     \<lparr>word = ''family'', category = ''nouns'',
      synonyms = [''relatives''],
      description = ''F hands circle together'',
      animation_type = None, animation_data = None\<rparr>),
    (''mother'',
     \<lparr>word = ''mother'', category = ''nouns'',
      synonyms = [''mom'', ''mama''],
      description = ''Thumb brushes chin'',
      animation_type = None, animation_data = None\<rparr>),
    (''father'',
     \<lparr>word = ''father'', category = ''nouns'',
      synonyms = [''dad'', ''papa''],
      description = ''F hand strikes forehead'',
      animation_type = None, animation_data = None\<rparr>),
    (''brother'',
     \<lparr>word = ''brother'', category = ''nouns'',
      synonyms = [''bro''],
      description = ''B hand strikes forehead'',
      animation_type = None, animation_data = None\<rparr>),
    (''sister'',
     \<lparr>word = ''sister'', category = ''nouns'',
      synonyms = [''sis''],
      description = ''S hand brushes chin'',
      animation_type = None, animation_data = None\<rparr>)]"

definition vocab_places :: "(string \<times> sign_data) list" where
  \<comment> \<open>\<open># Places\<close>\<close>
  "vocab_places = [
    (''home'',
     \<lparr>word = ''home'', category = ''nouns'',
      synonyms = [''house''],
      description = ''Fingers form roof over head'',
      animation_type = None, animation_data = None\<rparr>),
    (''school'',
     \<lparr>word = ''school'', category = ''nouns'',
      synonyms = [''classroom''],
      description = ''C hands circle outward'',
      animation_type = None, animation_data = None\<rparr>),
    (''class'',
     \<lparr>word = ''class'', category = ''nouns'',
      synonyms = [''classroom'', ''course'', ''lesson''],
      description = ''C hands circle outward'',
      animation_type = None, animation_data = None\<rparr>),
    (''bathroom'',
     \<lparr>word = ''bathroom'', category = ''nouns'',
      synonyms = [''restroom'', ''toilet''],
      description = ''T hand waves'',
      animation_type = None, animation_data = None\<rparr>),
    (''kitchen'',
     \<lparr>word = ''kitchen'', category = ''nouns'',
      synonyms = [''cook''],
      description = ''Stir motion'',
      animation_type = None, animation_data = None\<rparr>),
    (''bedroom'',
     \<lparr>word = ''bedroom'', category = ''nouns'',
      synonyms = [''bed''],
      description = ''Rest head on hands'',
      animation_type = None, animation_data = None\<rparr>)]"

definition vocab_objects :: "(string \<times> sign_data) list" where
  \<comment> \<open>\<open># Objects\<close>\<close>
  "vocab_objects = [
    (''book'',
     \<lparr>word = ''book'', category = ''nouns'',
      synonyms = [''textbook''],
      description = ''Palms open like book'',
      animation_type = None, animation_data = None\<rparr>),
    (''paper'',
     \<lparr>word = ''paper'', category = ''nouns'',
      synonyms = [''document'', ''sheet''],
      description = ''Palms brush together twice'',
      animation_type = None, animation_data = None\<rparr>),
    (''test'',
     \<lparr>word = ''test'', category = ''nouns'',
      synonyms = [''exam'', ''quiz'', ''examination''],
      description = ''X hands pull down and open'',
      animation_type = None, animation_data = None\<rparr>),
    (''homework'',
     \<lparr>word = ''homework'', category = ''nouns'',
      synonyms = [''assignment'', ''work''],
      description = ''Home sign plus work sign'',
      animation_type = None, animation_data = None\<rparr>),
    (''computer'',
     \<lparr>word = ''computer'', category = ''nouns'',
      synonyms = [''laptop'', ''pc''],
      description = ''Type on keyboard'',
      animation_type = None, animation_data = None\<rparr>),
    (''phone'',
     \<lparr>word = ''phone'', category = ''nouns'',
      synonyms = [''telephone'', ''cell phone''],
      description = ''Hand to ear like phone'',
      animation_type = None, animation_data = None\<rparr>),
    (''table'',
     \<lparr>word = ''table'', category = ''nouns'',
      synonyms = [''desk''],
      description = ''Flat hand horizontal'',
      animation_type = None, animation_data = None\<rparr>),
    (''chair'',
     \<lparr>word = ''chair'', category = ''nouns'',
      synonyms = [''seat''],
      description = ''Sit down gesture'',
      animation_type = None, animation_data = None\<rparr>),
    (''door'',
     \<lparr>word = ''door'', category = ''nouns'',
      synonyms = [''entrance''],
      description = ''Open door motion'',
      animation_type = None, animation_data = None\<rparr>),
    (''window'',
     \<lparr>word = ''window'', category = ''nouns'',
      synonyms = [''glass''],
      description = ''Square window frame'',
      animation_type = None, animation_data = None\<rparr>),
    (''water'',
     \<lparr>word = ''water'', category = ''nouns'',
      synonyms = [''drink''],
      description = ''W hand waves'',
      animation_type = None, animation_data = None\<rparr>),
    (''food'',
     \<lparr>word = ''food'', category = ''nouns'',
      synonyms = [''eat''],
      description = ''Hand to mouth'',
      animation_type = None, animation_data = None\<rparr>),
    (''money'',
     \<lparr>word = ''money'', category = ''nouns'',
      synonyms = [''cash'', ''dollar''],
      description = ''Rub thumb and fingers'',
      animation_type = None, animation_data = None\<rparr>),
    (''time'',
     \<lparr>word = ''time'', category = ''nouns'',
      synonyms = [''clock'', ''hour''],
      description = ''Point to watch'',
      animation_type = None, animation_data = None\<rparr>),
    (''day'',
     \<lparr>word = ''day'', category = ''nouns'',
      synonyms = [''today''],
      description = ''Circle overhead'',
      animation_type = None, animation_data = None\<rparr>),
    (''night'',
     \<lparr>word = ''night'', category = ''nouns'',
      synonyms = [''dark''],
      description = ''Rest head on hands'',
      animation_type = None, animation_data = None\<rparr>)]"

definition vocab_descriptors :: "(string \<times> sign_data) list" where
  \<comment> \<open>\<open># Descriptors\<close>\<close>
  "vocab_descriptors = [
    (''good'',
     \<lparr>word = ''good'', category = ''descriptors'',
      synonyms = [''great'', ''nice'', ''well'', ''excellent'', ''fine''],
      description = ''Flat hand from chin to palm'',
      animation_type = None, animation_data = None\<rparr>),
    (''bad'',
     \<lparr>word = ''bad'', category = ''descriptors'',
      synonyms = [''poor'', ''terrible'', ''awful'', ''wrong''],
      description = ''Flat hand from chin flips down'',
      animation_type = None, animation_data = None\<rparr>),
    (''easy'',
     \<lparr>word = ''easy'', category = ''descriptors'',
      synonyms = [''simple'', ''not hard''],
      description = ''Curved fingers brush upward'',
      animation_type = None, animation_data = None\<rparr>),
    (''hard'',
     \<lparr>word = ''hard'', category = ''descriptors'',
      synonyms = [''difficult'', ''tough'', ''challenging''],
      description = ''Bent V hands knock together'',
      animation_type = None, animation_data = None\<rparr>),
    (''fast'',
     \<lparr>word = ''fast'', category = ''descriptors'',
      synonyms = [''quick'', ''quickly'', ''rapid'', ''speed''],
      description = ''L hands pull back quickly'',
      animation_type = None, animation_data = None\<rparr>),
    (''slow'',
     \<lparr>word = ''slow'', category = ''descriptors'',
      synonyms = [''slowly'', ''slower''],
      description = ''Hand drags up back of hand'',
      animation_type = None, animation_data = None\<rparr>),
    (''important'',
     \<lparr>word = ''important'', category = ''descriptors'',
      synonyms = [''significant'', ''key'', ''critical'', ''essential''],
      description = ''F hands circle up to center'',
      animation_type = None, animation_data = None\<rparr>),
    (''big'',
     \<lparr>word = ''big'', category = ''descriptors'',
      synonyms = [''large'', ''huge''],
      description = ''Hands spread apart'',
      animation_type = None, animation_data = None\<rparr>),
    (''small'',
     \<lparr>word = ''small'', category = ''descriptors'',
      synonyms = [''little'', ''tiny''],
      description = ''Pinch fingers close'',
      animation_type = None, animation_data = None\<rparr>),
    (''hot'',
     \<lparr>word = ''hot'', category = ''descriptors'',
      synonyms = [''warm'', ''heat''],
      description = ''Wipe brow'',
      animation_type = None, animation_data = None\<rparr>),
    (''cold'',
     \<lparr>word = ''cold'', category = ''descriptors'',
      synonyms = [''cool'', ''freezing''],
      description = ''Shiver motion'',
      animation_type = None, animation_data = None\<rparr>),
    (''happy'',
     \<lparr>word = ''happy'', category = ''descriptors'',
      synonyms = [''glad'', ''joyful''],
      description = ''Smile with hands'',
      animation_type = None, animation_data = None\<rparr>),
    (''sad'',
     \<lparr>word = ''sad'', category = ''descriptors'',
      synonyms = [''unhappy'', ''sorry''],
      description = ''Frown with hands'',
      animation_type = None, animation_data = None\<rparr>),
    (''tired'',
     \<lparr>word = ''tired'', category = ''descriptors'',
      synonyms = [''sleepy'', ''exhausted''],
      description = ''Rest head on hands'',
      animation_type = None, animation_data = None\<rparr>),
    (''hungry'',
     \<lparr>word = ''hungry'', category = ''descriptors'',
      synonyms = [''starving''],
      description = ''Hand to stomach'',
      animation_type = None, animation_data = None\<rparr>),
    (''thirsty'',
     \<lparr>word = ''thirsty'', category = ''descriptors'',
      synonyms = [''dry''],
      description = ''Hand to mouth like drinking'',
      animation_type = None, animation_data = None\<rparr>)]"

definition vocab_questions :: "(string \<times> sign_data) list" where
  \<comment> \<open>\<open># Questions\<close>\<close>
  "vocab_questions = [
    (''what'',
     \<lparr>word = ''what'', category = ''questions'',
      synonyms = [],
      description = ''Index finger brushes across palm'',
      animation_type = None, animation_data = None\<rparr>),
    (''where'',
     \<lparr>word = ''where'', category = ''questions'',
      synonyms = [],
      description = ''Index finger waves side to side'',
      animation_type = None, animation_data = None\<rparr>),
    (''when'',
     \<lparr>word = ''when'', category = ''questions'',
      synonyms = [],
      description = ''Index finger circles then touches'',
      animation_type = None, animation_data = None\<rparr>),
    (''why'',
     \<lparr>word = ''why'', category = ''questions'',
      synonyms = [],
      description = ''Fingers touch forehead, pull to Y'',
      animation_type = None, animation_data = None\<rparr>),
    (''how'',
     \<lparr>word = ''how'', category = ''questions'',
      synonyms = [],
      description = ''Knuckles roll outward and open'',
      animation_type = None, animation_data = None\<rparr>),
    (''who'',
     \<lparr>word = ''who'', category = ''questions'',
      synonyms = [],
      description = ''Index finger circles at lips'',
      animation_type = None, animation_data = None\<rparr>),
    (''which'',
     \<lparr>word = ''which'', category = ''questions'',
      synonyms = [''what one''],
      description = ''Point between options'',
      animation_type = None, animation_data = None\<rparr>)]"

definition vocab_numbers :: "(string \<times> sign_data) list" where
  \<comment> \<open>\<open># Numbers (basic)\<close>\<close>
  "vocab_numbers = [
    (''one'',
     \<lparr>word = ''one'', category = ''numbers'',
      synonyms = [''1''],
      description = ''Index finger up'',
      animation_type = None, animation_data = None\<rparr>),
    (''two'',
     \<lparr>word = ''two'', category = ''numbers'',
      synonyms = [''2''],
      description = ''Index and middle fingers up'',
      animation_type = None, animation_data = None\<rparr>),
    (''three'',
     \<lparr>word = ''three'', category = ''numbers'',
      synonyms = [''3''],
      description = ''Three fingers up'',
      animation_type = None, animation_data = None\<rparr>),
    (''four'',
     \<lparr>word = ''four'', category = ''numbers'',
      synonyms = [''4''],
      description = ''Four fingers up'',
      animation_type = None, animation_data = None\<rparr>),
    (''five'',
     \<lparr>word = ''five'', category = ''numbers'',
      synonyms = [''5''],
      description = ''Five fingers up'',
      animation_type = None, animation_data = None\<rparr>),
    (''ten'',
     \<lparr>word = ''ten'', category = ''numbers'',
      synonyms = [''10''],
      description = ''Cross fists'',
      animation_type = None, animation_data = None\<rparr>)]"

definition vocab_colors :: "(string \<times> sign_data) list" where
  \<comment> \<open>\<open># Colors\<close>\<close>
  "vocab_colors = [
    (''red'',
     \<lparr>word = ''red'', category = ''colors'',
      synonyms = [],
      description = ''R hand waves'',
      animation_type = None, animation_data = None\<rparr>),
    (''blue'',
     \<lparr>word = ''blue'', category = ''colors'',
      synonyms = [],
      description = ''B hand waves'',
      animation_type = None, animation_data = None\<rparr>),
    (''green'',
     \<lparr>word = ''green'', category = ''colors'',
      synonyms = [],
      description = ''G hand waves'',
      animation_type = None, animation_data = None\<rparr>),
    (''yellow'',
     \<lparr>word = ''yellow'', category = ''colors'',
      synonyms = [],
      description = ''Y hand waves'',
      animation_type = None, animation_data = None\<rparr>),
    (''black'',
     \<lparr>word = ''black'', category = ''colors'',
      synonyms = [''dark''],
      description = ''Brush hair back'',
      animation_type = None, animation_data = None\<rparr>),
    (''white'',
     \<lparr>word = ''white'', category = ''colors'',
      synonyms = [''light''],
      description = ''Brush palm'',
      animation_type = None, animation_data = None\<rparr>)]"

definition vocab_phrases :: "(string \<times> sign_data) list" where
  \<comment> \<open>\<open># Common phrases\<close>\<close>
  "vocab_phrases = [
    (''i love you'',
     \<lparr>word = ''i love you'', category = ''phrases'',
      synonyms = [''love you''],
      description = ''I-L-Y fingers'',
      animation_type = None, animation_data = None\<rparr>),
    (''what's up'',
     \<lparr>word = ''what's up'', category = ''phrases'',
      synonyms = [''sup'', ''how's it going''],
      description = ''Wiggle fingers up'',
      animation_type = None, animation_data = None\<rparr>),
    (''see you later'',
     \<lparr>word = ''see you later'', category = ''phrases'',
      synonyms = [''bye'', ''later''],
      description = ''Wave with both hands'',
      animation_type = None, animation_data = None\<rparr>),
    (''take care'',
     \<lparr>word = ''take care'', category = ''phrases'',
      synonyms = [''be careful''],
      description = ''Pat heart'',
      animation_type = None, animation_data = None\<rparr>),
    (''excuse me'',
     \<lparr>word = ''excuse me'', category = ''phrases'',
      synonyms = [''pardon''],
      description = ''Wave hand'',
      animation_type = None, animation_data = None\<rparr>),
    (''i'm sorry'',
     \<lparr>word = ''i'm sorry'', category = ''phrases'',
      synonyms = [''sorry'', ''my apologies''],
      description = ''Fist circles on chest'',
      animation_type = None, animation_data = None\<rparr>),
    (''no problem'',
     \<lparr>word = ''no problem'', category = ''phrases'',
      synonyms = [''that's fine'', ''okay''],
      description = ''Brush off shoulder'',
      animation_type = None, animation_data = None\<rparr>),
    (''you're welcome'',
     \<lparr>word = ''you're welcome'', category = ''phrases'',
      synonyms = [''welcome''],
      description = ''Open hands outward'',
      animation_type = None, animation_data = None\<rparr>)]"

definition SIGN_VOCABULARY :: "(string \<times> sign_data) list" where
  "SIGN_VOCABULARY =
     vocab_greetings @
     vocab_responses @
     vocab_actions @
     vocab_people @
     vocab_places @
     vocab_objects @
     vocab_descriptors @
     vocab_questions @
     vocab_numbers @
     vocab_colors @
     vocab_phrases"


section \<open>Local matcher\<close>

definition get_vocabulary_list :: "string list" where
  "get_vocabulary_list = map fst SIGN_VOCABULARY"

definition vocab_match :: "sign_data \<Rightarrow> real \<Rightarrow> string \<Rightarrow> match_result" where
  \<comment> \<open>\<open>{**sign_data, "confidence": c, "matched_from": w}\<close>\<close>
  "vocab_match d c w =
     \<lparr>word = word d, category = category d, synonyms = synonyms d,
      description = description d, animation_type = animation_type d,
      animation_data = animation_data d,
      letters = None, confidence = JNumber c, matched_from = JString w,
      video_url = None, letter_videos = None\<rparr>"

definition fingerspelled :: "string \<Rightarrow> string \<Rightarrow> real \<Rightarrow> match_result" where
  \<comment> \<open>the dict literal of the fingerspell branches, for token \<open>w\<close> with letters \<open>ls\<close>\<close>
  "fingerspelled w ls c =
     \<lparr>word = w, category = ''fingerspelled'', synonyms = [],
      description = ''Finger-spell the word '' @ [CHR 0x27] @ w @ [CHR 0x27],
      animation_type = None, animation_data = None,
      letters = Some ls, confidence = JNumber c, matched_from = JString w,
      video_url = None, letter_videos = None\<rparr>"

record match_state =
  matched_signs :: "match_result list"
  matched_words :: "string set"

definition emit :: "match_result \<Rightarrow> string \<Rightarrow> match_state \<Rightarrow> match_state" where
  \<comment> \<open>\<open>matched_signs.append(r); matched_words.add(w)\<close>\<close>
  "emit r w st =
     \<lparr>matched_signs = matched_signs st @ [r], matched_words = insert w (matched_words st)\<rparr>"

fun phrase_pass :: "(string \<times> sign_data) list \<Rightarrow> string \<Rightarrow> match_state \<Rightarrow> match_state" where
  "phrase_pass [] text_lower st = st"
| "phrase_pass ((sign_word, d) # rest) text_lower st =
     (if CHR '' '' \<in> set sign_word \<and> str_in sign_word text_lower \<and> sign_word \<notin> matched_words st
      then phrase_pass rest text_lower (emit (vocab_match d 1.0 sign_word) sign_word st)
      else phrase_pass rest text_lower st)"

fun synonym_match :: "(string \<times> sign_data) list \<Rightarrow> string \<Rightarrow> sign_data option" where
  \<comment> \<open>the inner loop with its \<open>break\<close>: the first entry listing the word\<close>
  "synonym_match [] w = None"
| "synonym_match ((sign_word, d) # rest) w =
     (if w \<in> set (synonyms d) then Some d else synonym_match rest w)"

fun word_pass :: "string list \<Rightarrow> match_state \<Rightarrow> match_state" where
  "word_pass [] st = st"
| "word_pass (w # ws) st =
     (if w \<in> matched_words st then word_pass ws st
      else case map_of SIGN_VOCABULARY w of
        Some d \<Rightarrow> word_pass ws (emit (vocab_match d 1.0 w) w st)
      | None \<Rightarrow>
         (case synonym_match SIGN_VOCABULARY w of
            Some d \<Rightarrow> word_pass ws (emit (vocab_match d 0.85 w) w st)
          | None \<Rightarrow> word_pass ws st))"

fun fingerspell_pass :: "string list \<Rightarrow> match_state \<Rightarrow> match_state" where
  "fingerspell_pass [] st = st"
| "fingerspell_pass (w # ws) st =
     (if w = [] \<or> w \<in> matched_words st then fingerspell_pass ws st
      else let ls = filter isalpha w
           in if ls = [] then fingerspell_pass ws st
              else fingerspell_pass ws (emit (fingerspelled w ls 0.5) w st))"

definition tokens :: "string \<Rightarrow> string list" where
  \<comment> \<open>\<open>words\<close> of the source, from \<open>text_lower\<close>\<close>
  "tokens text_lower =
     str_split (str_replace CHR ''!'' CHR '' '' (str_replace CHR ''?'' CHR '' ''
       (str_replace CHR ''.'' CHR '' '' (str_replace CHR '','' CHR '' '' text_lower))))"

definition local_match_signs :: "string \<Rightarrow> match_result list" where
  "local_match_signs text =
     (let text_lower = str_lower text;
          ws = tokens text_lower;
          st0 = \<lparr>matched_signs = [], matched_words = {}\<rparr>;
          st1 = phrase_pass SIGN_VOCABULARY text_lower st0;
          st2 = word_pass ws st1;
          st3 = fingerspell_pass ws st2
      in matched_signs st3)"


section \<open>The matcher's output, pass by pass\<close>

text \<open>
  A declarative reading of the three loops, against which the state-passing model is
  proved: the tokens in the order of their first occurrence, the outcome of the word
  and synonym lookup for one token, and the three segments of the output.
\<close>

fun first_occurrences :: "'a list \<Rightarrow> 'a list" where
  "first_occurrences [] = []"
| "first_occurrences (x # xs) = x # first_occurrences (filter (\<lambda>y. y \<noteq> x) xs)"

definition word_hit :: "string \<Rightarrow> match_result option" where
  "word_hit w =
     (case map_of SIGN_VOCABULARY w of
        Some d \<Rightarrow> Some (vocab_match d 1.0 w)
      | None \<Rightarrow> map_option (\<lambda>d. vocab_match d 0.85 w) (synonym_match SIGN_VOCABULARY w))"

definition is_phrase_of :: "string \<Rightarrow> string \<times> sign_data \<Rightarrow> bool" where
  "is_phrase_of text_lower e = (CHR '' '' \<in> set (fst e) \<and> str_in (fst e) text_lower)"

definition phrase_matches :: "string \<Rightarrow> match_result list" where
  "phrase_matches text_lower =
     map (\<lambda>e. vocab_match (snd e) 1.0 (fst e)) (filter (is_phrase_of text_lower) SIGN_VOCABULARY)"

definition token_matches :: "string list \<Rightarrow> match_result list" where
  "token_matches ws = List.map_filter word_hit (first_occurrences ws)"

definition needs_fingerspelling :: "string \<Rightarrow> bool" where
  "needs_fingerspelling w = (word_hit w = None \<and> filter isalpha w \<noteq> [])"

definition fingerspell_matches :: "string list \<Rightarrow> match_result list" where
  "fingerspell_matches ws =
     map (\<lambda>w. fingerspelled w (filter isalpha w) 0.5)
       (first_occurrences (filter needs_fingerspelling ws))"

text \<open>The test the fallback loop applies to a token, given the words matched so far.\<close>

definition spellable :: "string set \<Rightarrow> string \<Rightarrow> bool" where
  "spellable M w = (w \<noteq> [] \<and> w \<notin> M \<and> filter isalpha w \<noteq> [])"

text \<open>
  The words the first two loops have put into \<open>matched_words\<close> when the fingerspell
  fallback starts.
\<close>

definition matched_before_fallback :: "string \<Rightarrow> string set" where
  "matched_before_fallback text =
     (let text_lower = str_lower text
      in matched_words
           (word_pass (tokens text_lower)
              (phrase_pass SIGN_VOCABULARY text_lower \<lparr>matched_signs = [], matched_words = {}\<rparr>)))"

text \<open>
  The ordering the specification describes: after the phrase matches, one pass over the
  tokens in which a word or synonym hit and a fingerspelled entry are emitted as the
  tokens come.
\<close>

definition interleaved_matches :: "string list \<Rightarrow> match_result list" where
  "interleaved_matches ws =
     concat (map (\<lambda>w. case word_hit w of
                         Some r \<Rightarrow> [r]
                       | None \<Rightarrow> if filter isalpha w = [] then []
                                 else [fingerspelled w (filter isalpha w) 0.5])
            (first_occurrences ws))"

definition spec_output_order :: "string \<Rightarrow> match_result list" where
  "spec_output_order text =
     phrase_matches (str_lower text) @ interleaved_matches (tokens (str_lower text))"

section \<open>Remote matcher\<close>

text \<open>
  What lies outside the program is a parameter: the credential read from the process
  environment, the text-generation service (its reply to the prompt built for a text,
  or the exception the call or \<open>response.text\<close> raises), \<open>json.loads\<close>, the listing of
  the videos directory and \<open>url_for\<close>. The prompt is a fixed function of the text and
  of the vocabulary keys, so the service is indexed by the text.
\<close>

datatype py_exception = TypeError | AttributeError | OSError | ServiceFailure string

datatype service_outcome = Raises string | Replies string

datatype parse_outcome = JSONDecodeError string | Parsed json

datatype dir_listing = NotADirectory | ListingFails | Listing "string list"

record environment =
  GEMINI_API_KEY :: string
  generate_content :: "string \<Rightarrow> service_outcome"
  json_loads :: "string \<Rightarrow> parse_outcome"
  videos_dir :: dir_listing
  url_for :: "string \<Rightarrow> string"

text \<open>The second component of the pair \<open>gemini_match_signs\<close> returns, before formatting.\<close>

datatype gemini_error =
    NoApiKey
  | ParseFailure string
  | ApiError py_exception

fun split_on :: "char \<Rightarrow> string \<Rightarrow> string list" where
  \<comment> \<open>\<open>s.split(c)\<close> with an explicit one-character separator\<close>
  "split_on c [] = [[]]"
| "split_on c (x # xs) =
     (if x = c then [] # split_on c xs
      else case split_on c xs of [] \<Rightarrow> [[x]] | l # ls \<Rightarrow> (x # l) # ls)"

fun str_join :: "string \<Rightarrow> string list \<Rightarrow> string" where
  "str_join sep [] = []"
| "str_join sep [l] = l"
| "str_join sep (l # m # ls) = l @ sep @ str_join sep (m # ls)"

definition strip_code_fence :: "string \<Rightarrow> string" where
  \<comment> \<open>\<open>lines[1:-1]\<close> of a reply that starts with three backquotes\<close>
  "strip_code_fence response_text =
     (if starts_with [CHR 0x60, CHR 0x60, CHR 0x60] response_text
      then str_join [CHR 0x0A] (butlast (tl (split_on (CHR 0x0A) response_text)))
      else response_text)"

definition py_iter :: "json \<Rightarrow> py_exception + json list" where
  \<comment> \<open>what \<open>for match in matches\<close> runs over: a dict yields its keys, a str its characters\<close>
  "py_iter v =
     (case v of
        JArray xs \<Rightarrow> Inr xs
      | JObject kvs \<Rightarrow> Inr (map (\<lambda>kv. JString (fst kv)) kvs)
      | JString s \<Rightarrow> Inr (map (\<lambda>c. JString [c]) s)
      | _ \<Rightarrow> Inl TypeError)"

definition dict_get :: "(string \<times> json) list \<Rightarrow> string \<Rightarrow> json \<Rightarrow> json" where
  \<comment> \<open>\<open>d.get(key, default)\<close>\<close>
  "dict_get kvs key dflt = (case map_of kvs key of Some v \<Rightarrow> v | None \<Rightarrow> dflt)"

definition remote_match :: "sign_data \<Rightarrow> json \<Rightarrow> json \<Rightarrow> match_result" where
  \<comment> \<open>\<open>{**SIGN_VOCABULARY[word], "confidence": c, "matched_from": f}\<close>\<close>
  "remote_match d c f =
     \<lparr>word = word d, category = category d, synonyms = synonyms d,
      description = description d, animation_type = animation_type d,
      animation_data = animation_data d,
      letters = None, confidence = c, matched_from = f,
      video_url = None, letter_videos = None\<rparr>"

fun enrich_matches :: "json list \<Rightarrow> match_result list \<Rightarrow> py_exception + match_result list" where
  "enrich_matches [] acc = Inr acc"
| "enrich_matches (m # ms) acc =
     (case m of
        JObject kvs \<Rightarrow>
          (case dict_get kvs ''word'' (JString []) of
             JString s \<Rightarrow>
               (let w = str_lower s
                in case map_of SIGN_VOCABULARY w of
                     Some d \<Rightarrow>
                       enrich_matches ms
                         (acc @ [remote_match d (dict_get kvs ''confidence'' (JNumber 0.8))
                                   (dict_get kvs ''matched_from'' (JString w))])
                   | None \<Rightarrow> enrich_matches ms acc)
           | _ \<Rightarrow> Inl AttributeError)
      | _ \<Rightarrow> Inl AttributeError)"

text \<open>
  The result pairs the tuple the source returns with the texts sent to the service, in
  order, so that a call made or not made is visible.
\<close>

definition gemini_match_signs ::
  "environment \<Rightarrow> string \<Rightarrow> (match_result list option \<times> gemini_error option) \<times> string list" where
  "gemini_match_signs env text =
     (if GEMINI_API_KEY env = [] then ((None, Some NoApiKey), [])
      else
        (case generate_content env text of
           Raises msg \<Rightarrow> ((None, Some (ApiError (ServiceFailure msg))), [text])
         | Replies raw \<Rightarrow>
             (case json_loads env (strip_code_fence (str_strip raw)) of
                JSONDecodeError msg \<Rightarrow> ((None, Some (ParseFailure msg)), [text])
              | Parsed matches \<Rightarrow>
                  (case py_iter matches of
                     Inl e \<Rightarrow> ((None, Some (ApiError e)), [text])
                   | Inr ms \<Rightarrow>
                       (case enrich_matches ms [] of
                          Inl e \<Rightarrow> ((None, Some (ApiError e)), [text])
                        | Inr enriched_matches \<Rightarrow> ((Some enriched_matches, None), [text]))))))"

section \<open>Media enrichment\<close>

definition files_of :: "string list \<Rightarrow> string \<rightharpoonup> string" where
  \<comment> \<open>\<open>{fn.lower(): fn for fn in os.listdir(VIDEOS_DIR)}\<close>: a later name wins\<close>
  "files_of fns = map_of (rev (map (\<lambda>fn. (str_lower fn, fn)) fns))"

definition letter_video :: "(string \<rightharpoonup> string) \<Rightarrow> (string \<Rightarrow> string) \<Rightarrow> char \<Rightarrow> string option" where
  "letter_video files url ch =
     (if \<not> isalpha ch then None
      else map_option url (files (str_lower [ch] @ ''.mp4'')))"

definition add_video_urls :: "(string \<rightharpoonup> string) \<Rightarrow> (string \<Rightarrow> string) \<Rightarrow> match_result \<Rightarrow> match_result" where
  \<comment> \<open>the body of the loop over \<open>signs\<close>\<close>
  "add_video_urls files url sign =
     (let s1 = (case files (str_lower (str_strip (word sign)) @ ''.mp4'') of
                  Some fn \<Rightarrow> sign\<lparr>video_url := Some (url fn)\<rparr>
                | None \<Rightarrow> sign)
      in if category s1 = ''fingerspelled''
         then (let letter_video_urls =
                     map (letter_video files url) (case letters s1 of Some ls \<Rightarrow> ls | None \<Rightarrow> [])
               in if list_ex (\<lambda>u. u \<noteq> None \<and> u \<noteq> Some []) letter_video_urls
                  then s1\<lparr>letter_videos := Some letter_video_urls\<rparr>
                  else s1)
         else s1)"

definition add_video_urls_to_signs ::
  "environment \<Rightarrow> match_result list \<Rightarrow> py_exception + match_result list" where
  "add_video_urls_to_signs env signs =
     (case videos_dir env of
        NotADirectory \<Rightarrow> Inr signs
      | ListingFails \<Rightarrow> Inl OSError
      | Listing fns \<Rightarrow> Inr (map (add_video_urls (files_of fns) (url_for env)) signs))"

definition with_videos :: "environment \<Rightarrow> match_result list \<Rightarrow> match_result list" where
  \<comment> \<open>\<open>try: add_video_urls_to_signs(signs)  except Exception: ...\<close>\<close>
  "with_videos env signs =
     (case add_video_urls_to_signs env signs of Inr signs' \<Rightarrow> signs' | Inl e \<Rightarrow> signs)"

section \<open>Request handler\<close>

text \<open>
  The body of a POST to \<open>/api/match\<close>: not JSON by its content type, JSON that does not
  parse (\<open>get_json\<close> aborts with 400 and a message), or a parsed value. The optional rate
  limiter wrapped around the handler is not part of the model.
\<close>

datatype request_body = NotJson | Malformed string | Body json

record response =
  status :: nat
  resp_signs :: "match_result list option"
  resp_method :: "string option"
  resp_text :: "string option"
  resp_error :: "string option"

definition truthy :: "json \<Rightarrow> bool" where
  \<comment> \<open>\<open>bool(v)\<close>\<close>
  "truthy v =
     (case v of
        JNull \<Rightarrow> False
      | JBool b \<Rightarrow> b
      | JNumber r \<Rightarrow> r \<noteq> 0
      | JString s \<Rightarrow> s \<noteq> []
      | JArray xs \<Rightarrow> xs \<noteq> []
      | JObject kvs \<Rightarrow> kvs \<noteq> [])"

definition ascii_alnum :: "char \<Rightarrow> bool" where
  \<comment> \<open>the class \<open>[A-Za-z0-9]\<close>\<close>
  "ascii_alnum c =
     (let n = (of_char c :: nat)
      in (48 \<le> n \<and> n \<le> 57) \<or> (65 \<le> n \<and> n \<le> 90) \<or> (97 \<le> n \<and> n \<le> 122))"

definition re_sub_non_alnum :: "string \<Rightarrow> string" where
  \<comment> \<open>\<open>re.sub(r"[^A-Za-z0-9\s]", " ", text)\<close>\<close>
  "re_sub_non_alnum s = map (\<lambda>c. if ascii_alnum c \<or> isspace c then c else CHR '' '') s"

definition forced_words :: "string \<Rightarrow> string list" where
  "forced_words text = filter (\<lambda>w. w \<noteq> []) (str_split (re_sub_non_alnum text))"

fun forced_signs :: "string list \<Rightarrow> match_result list" where
  "forced_signs [] = []"
| "forced_signs (w # ws) =
     (let ls = filter isalpha w
      in if ls = [] then forced_signs ws
         else fingerspelled w ls 1.0 # forced_signs ws)"

definition ok_response :: "match_result list \<Rightarrow> string \<Rightarrow> string \<Rightarrow> response" where
  \<comment> \<open>\<open>jsonify(signs=signs, method=m, text=text)\<close>, status 200\<close>
  "ok_response signs m text =
     \<lparr>status = 200, resp_signs = Some signs, resp_method = Some m, resp_text = Some text,
      resp_error = None\<rparr>"

definition error_response :: "nat \<Rightarrow> string \<Rightarrow> response" where
  \<comment> \<open>\<open>jsonify(error=msg), code\<close>\<close>
  "error_response code msg =
     \<lparr>status = code, resp_signs = None, resp_method = None, resp_text = None,
      resp_error = Some msg\<rparr>"

definition local_response :: "environment \<Rightarrow> string \<Rightarrow> response" where
  \<comment> \<open>the \<open># Local fallback\<close> tail of the handler\<close>
  "local_response env text = ok_response (with_videos env (local_match_signs text)) ''local'' text"

definition match_signs_text :: "environment \<Rightarrow> (string \<times> json) list \<Rightarrow> string \<Rightarrow> response \<times> string list" where
  \<comment> \<open>the handler from \<open>text = text.strip()[:2000]\<close> on\<close>
  "match_signs_text env kvs raw =
     (let text = take 2000 (str_strip raw);
          use_ai = truthy (dict_get kvs ''use_ai'' (JBool True));
          force_fingerspell = truthy (dict_get kvs ''force_fingerspell'' (JBool False))
      in if force_fingerspell
         then (ok_response (with_videos env (forced_signs (forced_words text))) ''fingerspell'' text, [])
         else if use_ai \<and> GEMINI_API_KEY env \<noteq> []
         then (case gemini_match_signs env text of
                 ((None, err), sent) \<Rightarrow> (local_response env text, sent)
               | ((Some signs, err), sent) \<Rightarrow>
                   (ok_response (with_videos env signs) ''gemini'' text, sent))
         else (local_response env text, []))"

definition match_signs :: "environment \<Rightarrow> request_body \<Rightarrow> response \<times> string list" where
  "match_signs env req =
     (case req of
        NotJson \<Rightarrow> (error_response 400 ''Expected JSON payload'', [])
      | Malformed msg \<Rightarrow> (error_response 400 msg, [])
      | Body data \<Rightarrow>
          (case data of
             JObject kvs \<Rightarrow>
               (case map_of kvs ''text'' of
                  Some (JString raw) \<Rightarrow>
                    (if str_strip raw = []
                     then (\<lparr>status = 400, resp_signs = Some [], resp_method = Some ''none'',
                            resp_text = None, resp_error = Some ''No text provided''\<rparr>, [])
                     else match_signs_text env kvs raw)
                | _ \<Rightarrow>
                    (\<lparr>status = 400, resp_signs = Some [], resp_method = Some ''none'',
                      resp_text = None, resp_error = Some ''No text provided''\<rparr>, []))
           | _ \<Rightarrow> (error_response 500 ''Internal Server Error'', [])))"

section \<open>Readings used in the statements about results\<close>

text \<open>The keys a result dict takes over from its vocabulary entry.\<close>

definition vocabulary_fields :: "match_result \<Rightarrow> sign_data" where
  "vocabulary_fields m =
     \<lparr>word = word m, category = category m, synonyms = synonyms m,
      description = description m, animation_type = animation_type m,
      animation_data = animation_data m\<rparr>"

text \<open>
  An item of the service's reply that the enrichment loop can process: a JSON object
  whose \<open>word\<close>, when present, is a string. For such an item, the result it contributes:
  none when its lower-cased word is not a vocabulary key, otherwise the entry with the
  item's \<open>confidence\<close> (0.8 when absent) and \<open>matched_from\<close> (the word when absent).
\<close>

definition well_formed_match :: "json \<Rightarrow> bool" where
  "well_formed_match m =
     (case m of
        JObject kvs \<Rightarrow>
          (case map_of kvs ''word'' of
             None \<Rightarrow> True
           | Some v \<Rightarrow> (case v of JString s \<Rightarrow> True | _ \<Rightarrow> False))
      | _ \<Rightarrow> False)"

definition item_word :: "(string \<times> json) list \<Rightarrow> string" where
  "item_word kvs =
     (case map_of kvs ''word'' of
        Some v \<Rightarrow> (case v of JString s \<Rightarrow> str_lower s | _ \<Rightarrow> [])
      | None \<Rightarrow> [])"

definition remote_result :: "json \<Rightarrow> match_result option" where
  "remote_result m =
     (case m of
        JObject kvs \<Rightarrow>
          (case map_of SIGN_VOCABULARY (item_word kvs) of
             None \<Rightarrow> None
           | Some d \<Rightarrow>
               Some \<lparr>word = word d, category = category d, synonyms = synonyms d,
                     description = description d, animation_type = animation_type d,
                     animation_data = animation_data d, letters = None,
                     confidence = (case map_of kvs ''confidence'' of
                                     Some c \<Rightarrow> c | None \<Rightarrow> JNumber 0.8),
                     matched_from = (case map_of kvs ''matched_from'' of
                                       Some f \<Rightarrow> f | None \<Rightarrow> JString (item_word kvs)),
                     video_url = None, letter_videos = None\<rparr>)
      | _ \<Rightarrow> None)"


section \<open>Facts about the string primitives\<close>

lemma isspace_space: "isspace CHR '' ''"
  by (simp add: isspace_def)

lemma split_from_no_space:
  "w \<in> set (split_from cur s) \<Longrightarrow> list_all (\<lambda>c. \<not> isspace c) cur \<Longrightarrow>
   w \<noteq> [] \<and> list_all (\<lambda>c. \<not> isspace c) w"
proof (induction s arbitrary: cur)
  case Nil
  then show ?case by (simp split: if_splits)
next
  case (Cons c cs)
  show ?case
  proof (cases "isspace c")
    case True
    then have "w = cur \<and> cur \<noteq> [] \<or> w \<in> set (split_from [] cs)"
      using Cons.prems(1) by (simp split: if_splits)
    then show ?thesis
      using Cons.IH [of "[]"] Cons.prems(2) by auto
  next
    case False
    then have "w \<in> set (split_from (cur @ [c]) cs)"
      using Cons.prems(1) by simp
    then show ?thesis
      using Cons.IH [of "cur @ [c]"] Cons.prems(2) False by simp
  qed
qed

lemma str_split_no_space:
  "w \<in> set (str_split s) \<Longrightarrow> w \<noteq> [] \<and> list_all (\<lambda>c. \<not> isspace c) w"
  unfolding str_split_def using split_from_no_space [where cur = "[]"] by simp

lemma token_nonempty: "w \<in> set (tokens t) \<Longrightarrow> w \<noteq> []"
  unfolding tokens_def by (rule str_split_no_space [THEN conjunct1])

lemma token_no_space: "w \<in> set (tokens t) \<Longrightarrow> CHR '' '' \<notin> set w"
proof
  assume w: "w \<in> set (tokens t)" and sp: "CHR '' '' \<in> set w"
  from w have "list_all (\<lambda>c. \<not> isspace c) w"
    unfolding tokens_def by (rule str_split_no_space [THEN conjunct2])
  with sp have "\<not> isspace CHR '' ''"
    by (simp add: list_all_iff)
  then show False
    by (simp add: isspace_space)
qed

lemma split_from_single:
  "list_all (\<lambda>c. \<not> isspace c) s \<Longrightarrow> cur @ s \<noteq> [] \<Longrightarrow> split_from cur s = [cur @ s]"
proof (induction s arbitrary: cur)
  case Nil
  then show ?case by simp
next
  case (Cons c cs)
  then have "split_from (cur @ [c]) cs = [(cur @ [c]) @ cs]"
    by simp
  then show ?case
    using Cons.prems(1) by simp
qed

lemma str_split_single:
  "s \<noteq> [] \<Longrightarrow> list_all (\<lambda>c. \<not> isspace c) s \<Longrightarrow> str_split s = [s]"
  unfolding str_split_def using split_from_single [where cur = "[]"] by simp

lemma starts_with_refl: "starts_with s s"
  by (induction s) auto

lemma str_in_refl: "str_in s s"
  by (cases s) (auto simp: starts_with_refl)

section \<open>Facts about first occurrences\<close>

lemma filter_neq_absorb: "\<not> P x \<Longrightarrow> filter P (filter (\<lambda>y. y \<noteq> x) xs) = filter P xs"
  by (induction xs) auto

lemma filter_neq_commute:
  "filter (\<lambda>y. y \<noteq> x) (filter P xs) = filter P (filter (\<lambda>y. y \<noteq> x) xs)"
  by (induction xs) auto

lemma first_occurrences_filter:
  "first_occurrences (filter P xs) = filter P (first_occurrences xs)"
proof (induction xs rule: first_occurrences.induct)
  case 1
  show ?case by simp
next
  case (2 x xs)
  let ?r = "filter (\<lambda>y. y \<noteq> x) xs"
  have IH: "first_occurrences (filter P ?r) = filter P (first_occurrences ?r)"
    by (rule 2)
  show ?case
  proof (cases "P x")
    case True
    have "first_occurrences (filter P (x # xs)) =
          x # first_occurrences (filter (\<lambda>y. y \<noteq> x) (filter P xs))"
      using True by simp
    also have "\<dots> = x # first_occurrences (filter P ?r)"
      by (simp only: filter_neq_commute)
    also have "\<dots> = filter P (first_occurrences (x # xs))"
      using True IH by simp
    finally show ?thesis .
  next
    case False
    have "first_occurrences (filter P (x # xs)) = first_occurrences (filter P xs)"
      using False by simp
    also have "\<dots> = first_occurrences (filter P ?r)"
      using filter_neq_absorb [of P x xs] False by simp
    also have "\<dots> = filter P (first_occurrences (x # xs))"
      using False IH by simp
    finally show ?thesis .
  qed
qed

lemma set_first_occurrences: "set (first_occurrences xs) = set xs"
  by (induction xs rule: first_occurrences.induct) auto

lemma distinct_first_occurrences: "distinct (first_occurrences xs)"
  by (induction xs rule: first_occurrences.induct) (auto simp: set_first_occurrences)


section \<open>The three passes in closed form\<close>

lemma phrase_pass_eq:
  "distinct (map fst v) \<Longrightarrow> fst ` set v \<inter> matched_words st = {} \<Longrightarrow>
   phrase_pass v t st =
     \<lparr>matched_signs = matched_signs st @
        map (\<lambda>e. vocab_match (snd e) 1.0 (fst e)) (filter (is_phrase_of t) v),
      matched_words = matched_words st \<union> fst ` set (filter (is_phrase_of t) v)\<rparr>"
proof (induction v arbitrary: st)
  case Nil
  show ?case by simp
next
  case (Cons e v)
  obtain k d where e: "e = (k, d)" by (cases e)
  have dv: "distinct (map fst v)" and kv: "k \<notin> fst ` set v" and kM: "k \<notin> matched_words st"
    and vM: "fst ` set v \<inter> matched_words st = {}"
    using Cons.prems e by auto
  show ?case
  proof (cases "is_phrase_of t e")
    case True
    let ?st = "emit (vocab_match d 1.0 k) k st"
    have "fst ` set v \<inter> matched_words ?st = {}"
      using vM kv by (simp add: emit_def)
    from Cons.IH [OF dv this] True kM show ?thesis
      by (simp add: e is_phrase_of_def emit_def)
  next
    case False
    from Cons.IH [OF dv vM] False show ?thesis
      by (auto simp: e is_phrase_of_def)
  qed
qed

lemma word_pass_Cons:
  "word_pass (w # ws) st =
     (if w \<in> matched_words st then word_pass ws st
      else case word_hit w of Some r \<Rightarrow> word_pass ws (emit r w st) | None \<Rightarrow> word_pass ws st)"
  by (simp add: word_hit_def split: option.splits)

lemma map_filter_skip:
  "f w = None \<Longrightarrow> List.map_filter f (filter (\<lambda>y. y \<noteq> w) xs) = List.map_filter f xs"
  by (induction xs) (auto simp: List.map_filter_simps split: option.splits)

lemma filter_not_in_insert:
  "filter (\<lambda>x. x \<notin> insert w M) ws = filter (\<lambda>y. y \<noteq> w) (filter (\<lambda>x. x \<notin> M) ws)"
  by (induction ws) auto

lemma word_pass_eq:
  "word_pass ws st =
     \<lparr>matched_signs = matched_signs st @
        List.map_filter word_hit (first_occurrences (filter (\<lambda>w. w \<notin> matched_words st) ws)),
      matched_words = matched_words st \<union> {w \<in> set ws. word_hit w \<noteq> None}\<rparr>"
proof (induction ws arbitrary: st)
  case Nil
  show ?case by (simp add: List.map_filter_simps)
next
  case (Cons w ws)
  let ?M = "matched_words st"
  let ?F = "filter (\<lambda>x. x \<notin> ?M) ws"
  show ?case
  proof (cases "w \<in> ?M")
    case True
    have "{x \<in> set (w # ws). word_hit x \<noteq> None} \<union> ?M = {x \<in> set ws. word_hit x \<noteq> None} \<union> ?M"
      using True by auto
    then show ?thesis
      using True Cons.IH [of st] by (simp add: word_pass_Cons Un_commute del: word_pass.simps)
  next
    case False
    show ?thesis
    proof (cases "word_hit w")
      case None
      have "List.map_filter word_hit (first_occurrences (w # ?F)) =
            List.map_filter word_hit (first_occurrences (filter (\<lambda>y. y \<noteq> w) ?F))"
        using None by (simp add: List.map_filter_simps)
      also have "\<dots> = List.map_filter word_hit (first_occurrences ?F)"
        using None by (simp only: first_occurrences_filter map_filter_skip)
      finally have signs: "List.map_filter word_hit (first_occurrences (filter (\<lambda>x. x \<notin> ?M) (w # ws))) =
            List.map_filter word_hit (first_occurrences ?F)"
        using False by simp
      have wordset: "{x \<in> set (w # ws). word_hit x \<noteq> None} = {x \<in> set ws. word_hit x \<noteq> None}"
        using None by auto
      have "word_pass (w # ws) st = word_pass ws st"
        using False None by (simp add: word_pass_Cons del: word_pass.simps)
      then show ?thesis
        using Cons.IH [of st] by (simp only: signs wordset)
    next
      case (Some r)
      let ?st = "emit r w st"
      have step: "word_pass (w # ws) st = word_pass ws ?st"
        using False Some by (simp add: word_pass_Cons del: word_pass.simps)
      have M': "matched_words ?st = insert w ?M" and S': "matched_signs ?st = matched_signs st @ [r]"
        by (simp_all add: emit_def)
      have signs: "List.map_filter word_hit (first_occurrences (filter (\<lambda>x. x \<notin> ?M) (w # ws))) =
            r # List.map_filter word_hit (first_occurrences (filter (\<lambda>x. x \<notin> insert w ?M) ws))"
        using False Some by (simp add: List.map_filter_simps filter_not_in_insert del: insert_iff)
      have wordset: "insert w ?M \<union> {x \<in> set ws. word_hit x \<noteq> None} =
            ?M \<union> {x \<in> set (w # ws). word_hit x \<noteq> None}"
        using Some by auto
      have IH': "word_pass ws ?st =
          \<lparr>matched_signs = (matched_signs st @ [r]) @
             List.map_filter word_hit (first_occurrences (filter (\<lambda>x. x \<notin> insert w ?M) ws)),
           matched_words = insert w ?M \<union> {x \<in> set ws. word_hit x \<noteq> None}\<rparr>"
        using Cons.IH [of ?st] unfolding M' S' .
      have signs': "(matched_signs st @ [r]) @
             List.map_filter word_hit (first_occurrences (filter (\<lambda>x. x \<notin> insert w ?M) ws)) =
           matched_signs st @
             List.map_filter word_hit (first_occurrences (filter (\<lambda>x. x \<notin> ?M) (w # ws)))"
        unfolding signs by simp
      show ?thesis
        unfolding step IH' signs' wordset ..
    qed
  qed
qed

lemma filter_spellable_insert:
  "filter (spellable (insert w M)) ws = filter (\<lambda>y. y \<noteq> w) (filter (spellable M) ws)"
  by (induction ws) (auto simp: spellable_def)

lemma fingerspell_pass_eq:
  "fingerspell_pass ws st =
     \<lparr>matched_signs = matched_signs st @
        map (\<lambda>w. fingerspelled w (filter isalpha w) 0.5)
          (first_occurrences (filter (spellable (matched_words st)) ws)),
      matched_words = matched_words st \<union> set (filter (spellable (matched_words st)) ws)\<rparr>"
proof (induction ws arbitrary: st)
  case Nil
  show ?case by simp
next
  case (Cons w ws)
  let ?M = "matched_words st"
  show ?case
  proof (cases "spellable ?M w")
    case False
    then have "fingerspell_pass (w # ws) st = fingerspell_pass ws st"
      by (auto simp: spellable_def Let_def)
    then show ?thesis
      using False Cons.IH [of st] by simp
  next
    case True
    let ?r = "fingerspelled w (filter isalpha w) 0.5"
    let ?st = "emit ?r w st"
    have step: "fingerspell_pass (w # ws) st = fingerspell_pass ws ?st"
      using True by (simp add: spellable_def Let_def)
    have M': "matched_words ?st = insert w ?M" and S': "matched_signs ?st = matched_signs st @ [?r]"
      by (simp_all add: emit_def)
    have IH': "fingerspell_pass ws ?st =
        \<lparr>matched_signs = (matched_signs st @ [?r]) @
           map (\<lambda>w. fingerspelled w (filter isalpha w) 0.5)
             (first_occurrences (filter (spellable (insert w ?M)) ws)),
         matched_words = insert w ?M \<union> set (filter (spellable (insert w ?M)) ws)\<rparr>"
      using Cons.IH [of ?st] unfolding M' S' .
    have signs: "(matched_signs st @ [?r]) @
           map (\<lambda>w. fingerspelled w (filter isalpha w) 0.5)
             (first_occurrences (filter (spellable (insert w ?M)) ws)) =
         matched_signs st @
           map (\<lambda>w. fingerspelled w (filter isalpha w) 0.5)
             (first_occurrences (filter (spellable ?M) (w # ws)))"
      using True by (simp add: filter_spellable_insert)
    have wordset: "insert w ?M \<union> set (filter (spellable (insert w ?M)) ws) =
          ?M \<union> set (filter (spellable ?M) (w # ws))"
      using True by (auto simp: spellable_def)
    show ?thesis
      unfolding step IH' signs wordset ..
  qed
qed


section \<open>Facts about the vocabulary table\<close>

lemma vocabulary_keys_distinct: "distinct (map fst SIGN_VOCABULARY)"
  by code_simp

lemma vocabulary_well_formed:
  "list_all (\<lambda>e. word (snd e) = fst e \<and> str_lower (fst e) = fst e \<and>
                  (CHR '' '' \<in> set (fst e) \<or> tokens (fst e) = [fst e]))
     SIGN_VOCABULARY"
  by code_simp

lemma vocabulary_entry:
  assumes "(k, d) \<in> set SIGN_VOCABULARY"
  shows "word d = k" and "str_lower k = k" and "CHR '' '' \<in> set k \<or> tokens k = [k]"
  using assms vocabulary_well_formed by (auto simp: list_all_iff)

section \<open>The output as three segments\<close>

lemma phrase_words_have_space:
  "k \<in> fst ` set (filter (is_phrase_of t) SIGN_VOCABULARY) \<Longrightarrow> CHR '' '' \<in> set k"
  by (auto simp: is_phrase_of_def)

lemma phrase_pass_vocabulary:
  "phrase_pass SIGN_VOCABULARY t \<lparr>matched_signs = [], matched_words = {}\<rparr> =
     \<lparr>matched_signs = phrase_matches t,
      matched_words = fst ` set (filter (is_phrase_of t) SIGN_VOCABULARY)\<rparr>"
  using phrase_pass_eq [OF vocabulary_keys_distinct, of "\<lparr>matched_signs = [], matched_words = {}\<rparr>" t]
  by (simp add: phrase_matches_def)

lemma tokens_not_phrases:
  "filter (\<lambda>w. w \<notin> fst ` set (filter (is_phrase_of t) SIGN_VOCABULARY)) (tokens t') = tokens t'"
proof -
  have "w \<notin> fst ` set (filter (is_phrase_of t) SIGN_VOCABULARY)" if "w \<in> set (tokens t')" for w
    using that token_no_space phrase_words_have_space by blast
  then show ?thesis
    by (simp add: filter_id_conv)
qed

lemma word_pass_vocabulary:
  "word_pass (tokens t) (phrase_pass SIGN_VOCABULARY t \<lparr>matched_signs = [], matched_words = {}\<rparr>) =
     \<lparr>matched_signs = phrase_matches t @ token_matches (tokens t),
      matched_words = fst ` set (filter (is_phrase_of t) SIGN_VOCABULARY) \<union>
                      {w \<in> set (tokens t). word_hit w \<noteq> None}\<rparr>"
  unfolding phrase_pass_vocabulary word_pass_eq
  by (simp only: match_state.select_convs tokens_not_phrases token_matches_def)

lemma matched_before_fallback_eq:
  "matched_before_fallback text =
     fst ` set (filter (is_phrase_of (str_lower text)) SIGN_VOCABULARY) \<union>
     {w \<in> set (tokens (str_lower text)). word_hit w \<noteq> None}"
  unfolding matched_before_fallback_def Let_def word_pass_vocabulary
  by (simp only: match_state.select_convs)

lemma token_consumed_iff:
  assumes "w \<in> set (tokens (str_lower text))"
  shows "w \<in> matched_before_fallback text \<longleftrightarrow> word_hit w \<noteq> None"
  using assms token_no_space phrase_words_have_space
  unfolding matched_before_fallback_eq by blast

lemma fallback_tokens:
  "filter (spellable (fst ` set (filter (is_phrase_of t) SIGN_VOCABULARY) \<union>
                      {w \<in> set (tokens t). word_hit w \<noteq> None})) (tokens t) =
   filter needs_fingerspelling (tokens t)"
proof (rule filter_cong [OF refl])
  fix w
  assume w: "w \<in> set (tokens t)"
  have "w \<noteq> []" and "w \<notin> fst ` set (filter (is_phrase_of t) SIGN_VOCABULARY)"
    using w token_nonempty token_no_space phrase_words_have_space by blast+
  then show "spellable (fst ` set (filter (is_phrase_of t) SIGN_VOCABULARY) \<union>
                      {w \<in> set (tokens t). word_hit w \<noteq> None}) w = needs_fingerspelling w"
    using w by (auto simp: spellable_def needs_fingerspelling_def)
qed

lemma local_match_signs_segments:
  "local_match_signs text =
     phrase_matches (str_lower text) @ token_matches (tokens (str_lower text)) @
     fingerspell_matches (tokens (str_lower text))"
  unfolding local_match_signs_def Let_def word_pass_vocabulary fingerspell_pass_eq
  by (simp only: match_state.select_convs fallback_tokens fingerspell_matches_def append_assoc)


section \<open>What one token contributes\<close>

lemma word_hit_fields:
  assumes "word_hit w = Some r"
  shows "matched_from r = JString w"
    and "confidence r = JNumber 1.0 \<or> confidence r = JNumber 0.85"
    and "letters r = None"
  using assms by (auto simp: word_hit_def vocab_match_def split: option.splits)

lemma filter_phrase_matches:
  assumes "CHR '' '' \<notin> set w"
  shows "filter (\<lambda>m. matched_from m = JString w) (phrase_matches t) = []"
proof -
  have "matched_from m \<noteq> JString w" if "m \<in> set (phrase_matches t)" for m
    using that assms by (auto simp: phrase_matches_def is_phrase_of_def vocab_match_def)
  then show ?thesis
    by (simp add: filter_empty_conv)
qed

lemma filter_map_filter_word_hit:
  assumes "distinct xs"
  shows "filter (\<lambda>m. matched_from m = JString w) (List.map_filter word_hit xs) =
           (if w \<in> set xs then (case word_hit w of Some r \<Rightarrow> [r] | None \<Rightarrow> []) else [])"
  using assms
proof (induction xs)
  case Nil
  show ?case by (simp add: List.map_filter_simps)
next
  case (Cons x xs)
  show ?case
  proof (cases "word_hit x")
    case None
    then show ?thesis
      using Cons by (auto simp: List.map_filter_simps)
  next
    case (Some r)
    then have "matched_from r = JString x"
      by (rule word_hit_fields)
    then show ?thesis
      using Some Cons by (auto simp: List.map_filter_simps)
  qed
qed

lemma filter_fingerspelled:
  assumes "distinct xs"
  shows "filter (\<lambda>m. matched_from m = JString w) (map (\<lambda>x. fingerspelled x (filter isalpha x) c) xs) =
           (if w \<in> set xs then [fingerspelled w (filter isalpha w) c] else [])"
  using assms by (induction xs) (auto simp: fingerspelled_def)

lemma matches_for_token:
  assumes "w \<in> set (tokens (str_lower text))"
  shows "filter (\<lambda>m. matched_from m = JString w) (local_match_signs text) =
           (case word_hit w of
              Some r \<Rightarrow> [r]
            | None \<Rightarrow> if filter isalpha w = [] then []
                      else [fingerspelled w (filter isalpha w) 0.5])"
proof -
  let ?ws = "tokens (str_lower text)"
  have P: "filter (\<lambda>m. matched_from m = JString w) (phrase_matches (str_lower text)) = []"
    using assms token_no_space by (intro filter_phrase_matches) blast
  have T: "filter (\<lambda>m. matched_from m = JString w) (token_matches ?ws) =
             (case word_hit w of Some r \<Rightarrow> [r] | None \<Rightarrow> [])"
    unfolding token_matches_def
    using assms filter_map_filter_word_hit [OF distinct_first_occurrences, of w ?ws]
    by (simp add: set_first_occurrences)
  have F: "filter (\<lambda>m. matched_from m = JString w) (fingerspell_matches ?ws) =
             (if needs_fingerspelling w then [fingerspelled w (filter isalpha w) 0.5] else [])"
    unfolding fingerspell_matches_def
    using assms filter_fingerspelled [OF distinct_first_occurrences, of w "0.5" "filter needs_fingerspelling ?ws"]
    by (simp add: set_first_occurrences)
  show ?thesis
    unfolding local_match_signs_segments filter_append P T F
    by (simp add: needs_fingerspelling_def split: option.splits)
qed

lemma segment_confidences:
  assumes "m \<in> set (local_match_signs text)"
  shows "confidence m = JNumber 1.0 \<or> confidence m = JNumber 0.85 \<or> confidence m = JNumber 0.5"
proof -
  let ?ws = "tokens (str_lower text)"
  from assms consider
      "m \<in> set (phrase_matches (str_lower text))"
    | "m \<in> set (token_matches ?ws)"
    | "m \<in> set (fingerspell_matches ?ws)"
    unfolding local_match_signs_segments by auto
  then show ?thesis
  proof cases
    case 1
    then show ?thesis
      by (auto simp: phrase_matches_def vocab_match_def)
  next
    case 2
    then obtain w where "word_hit w = Some m"
      by (auto simp: token_matches_def List.map_filter_def)
    then show ?thesis
      using word_hit_fields(2) by blast
  next
    case 3
    then show ?thesis
      by (auto simp: fingerspell_matches_def fingerspelled_def)
  qed
qed

lemma synonym_match_first:
  assumes "i < length v" and "v ! i = (k, e)" and "s \<in> set (synonyms e)"
    and "\<forall>j<i. s \<notin> set (synonyms (snd (v ! j)))"
  shows "synonym_match v s = Some e"
  using assms
proof (induction v arbitrary: i)
  case Nil
  then show ?case by simp
next
  case (Cons x v)
  obtain k' d where x: "x = (k', d)" by (cases x)
  show ?case
  proof (cases i)
    case 0
    then show ?thesis
      using Cons.prems x by simp
  next
    case (Suc n)
    have first: "s \<notin> set (synonyms d)"
      using Cons.prems(4) Suc x by (auto dest: spec [of _ 0])
    have rest: "\<forall>j<n. s \<notin> set (synonyms (snd (v ! j)))"
      using Cons.prems(4) Suc by (auto dest: spec [of _ "Suc j" for j])
    have "synonym_match v s = Some e"
      using Cons.IH [of n] Cons.prems(1,2,3) Suc rest by simp
    then show ?thesis
      using first x by simp
  qed
qed

lemma empty_text_segments: "local_match_signs [] = []"
proof -
  have "filter (is_phrase_of []) SIGN_VOCABULARY = []"
    by (auto simp: filter_empty_conv is_phrase_of_def)
  then show ?thesis
    unfolding local_match_signs_segments
    by (simp add: phrase_matches_def token_matches_def fingerspell_matches_def str_lower_def
        tokens_def str_split_def str_replace_def List.map_filter_simps)
qed

lemma synonym_match_index:
  assumes "synonym_match v w = Some e"
  shows "\<exists>i<length v. snd (v ! i) = e \<and> w \<in> set (synonyms e) \<and>
           (\<forall>j<i. w \<notin> set (synonyms (snd (v ! j))))"
  using assms
proof (induction v)
  case Nil
  then show ?case by simp
next
  case (Cons x v)
  obtain k d where x: "x = (k, d)" by (cases x)
  show ?case
  proof (cases "w \<in> set (synonyms d)")
    case True
    then have "e = d"
      using Cons.prems x by simp
    then have "0 < length (x # v) \<and> snd ((x # v) ! 0) = e \<and> w \<in> set (synonyms e) \<and>
           (\<forall>j<0. w \<notin> set (synonyms (snd ((x # v) ! j))))"
      using True x by simp
    then show ?thesis
      by blast
  next
    case False
    then have "synonym_match v w = Some e"
      using Cons.prems x by simp
    then obtain i where i: "i < length v" "snd (v ! i) = e" "w \<in> set (synonyms e)"
        "\<forall>j<i. w \<notin> set (synonyms (snd (v ! j)))"
      using Cons.IH by blast
    have "\<forall>j<Suc i. w \<notin> set (synonyms (snd ((x # v) ! j)))"
    proof (intro allI impI)
      fix j
      assume "j < Suc i"
      then show "w \<notin> set (synonyms (snd ((x # v) ! j)))"
        using False x i(4) by (cases j) auto
    qed
    then have "Suc i < length (x # v) \<and> snd ((x # v) ! Suc i) = e \<and> w \<in> set (synonyms e) \<and>
           (\<forall>j<Suc i. w \<notin> set (synonyms (snd ((x # v) ! j))))"
      using i by simp
    then show ?thesis
      by blast
  qed
qed

lemma vocabulary_fields_vocab_match: "vocabulary_fields (vocab_match d c w) = d"
  by (simp add: vocabulary_fields_def vocab_match_def)

lemma confidence_vocab_match: "confidence (vocab_match d c w) = JNumber c"
  by (simp add: vocab_match_def)

lemma synonym_hit_iff:
  "(\<exists>m. word_hit w = Some m \<and> vocabulary_fields m = e \<and> confidence m = JNumber 0.85) \<longleftrightarrow>
   (w \<notin> set (map fst SIGN_VOCABULARY) \<and> synonym_match SIGN_VOCABULARY w = Some e)"
proof (cases "map_of SIGN_VOCABULARY w")
  case None
  then have "w \<notin> set (map fst SIGN_VOCABULARY)"
    by (simp add: map_of_eq_None_iff)
  then show ?thesis
    using None by (auto simp: word_hit_def vocabulary_fields_vocab_match confidence_vocab_match)
next
  case (Some d)
  then have "w \<in> set (map fst SIGN_VOCABULARY)"
    by (metis map_of_eq_None_iff option.distinct(1) set_map)
  then show ?thesis
    using Some by (auto simp: word_hit_def confidence_vocab_match)
qed

lemma local_results_no_videos:
  assumes "m \<in> set (local_match_signs s)"
  shows "m\<lparr>video_url := None, letter_videos := None\<rparr> = m"
proof -
  let ?ws = "tokens (str_lower s)"
  from assms consider
      "m \<in> set (phrase_matches (str_lower s))"
    | "m \<in> set (token_matches ?ws)"
    | "m \<in> set (fingerspell_matches ?ws)"
    unfolding local_match_signs_segments by auto
  then show ?thesis
  proof cases
    case 1
    then show ?thesis
      by (auto simp: phrase_matches_def vocab_match_def)
  next
    case 2
    then obtain w where "word_hit w = Some m"
      by (auto simp: token_matches_def List.map_filter_def)
    then show ?thesis
      by (auto simp: word_hit_def vocab_match_def split: option.splits)
  next
    case 3
    then show ?thesis
      by (auto simp: fingerspell_matches_def fingerspelled_def)
  qed
qed

lemma local_results_clear:
  "map (\<lambda>m. m\<lparr>video_url := None, letter_videos := None\<rparr>) (local_match_signs s) =
   local_match_signs s"
  using local_results_no_videos by (simp add: map_idI)


section \<open>Claims about the local matcher\<close>

text \<open>
  C1 (as amended). For every input text the list returned by \<open>local_match_signs\<close> is made
  of three segments in this order: the multi-word phrase matches in vocabulary order,
  then the word and synonym hits in the order of the tokens' first occurrence, then the
  fingerspelled entries of the tokens that had no hit, again in token order. The
  fingerspelled entries are not interleaved with the hits: they all come last.
\<close>

theorem local_match_signs_output_order:
  "local_match_signs text =
     phrase_matches (str_lower text) @ token_matches (tokens (str_lower text)) @
     fingerspell_matches (tokens (str_lower text))"
proof -
  let ?t = "str_lower text"
  let ?st2 = "word_pass (tokens ?t)
                (phrase_pass SIGN_VOCABULARY ?t \<lparr>matched_signs = [], matched_words = {}\<rparr>)"
  have run: "local_match_signs text = matched_signs (fingerspell_pass (tokens ?t) ?st2)"
    by (simp add: local_match_signs_def Let_def)
  have first_two: "matched_signs ?st2 = phrase_matches ?t @ token_matches (tokens ?t)"
    unfolding word_pass_vocabulary by simp
  have unmatched: "filter (spellable (matched_words ?st2)) (tokens ?t) =
                   filter needs_fingerspelling (tokens ?t)"
    unfolding word_pass_vocabulary match_state.select_convs by (rule fallback_tokens)
  have "matched_signs (fingerspell_pass (tokens ?t) ?st2) =
          matched_signs ?st2 @
          map (\<lambda>w. fingerspelled w (filter isalpha w) 0.5)
            (first_occurrences (filter (spellable (matched_words ?st2)) (tokens ?t)))"
    by (subst fingerspell_pass_eq) simp
  then show ?thesis
    unfolding run first_two unmatched fingerspell_matches_def by simp
qed

text \<open>
  The input \<open>xyzzy hello\<close> has an unmatched first token and a vocabulary key as second
  token; the word match for \<open>hello\<close> comes before the fingerspelled entry for \<open>xyzzy\<close>,
  so the output differs from the interleaved order.
\<close>

theorem interleaved_order_counterexample:
  "tokens (str_lower ''xyzzy hello'') = [''xyzzy'', ''hello''] \<and>
   map matched_from (local_match_signs ''xyzzy hello'') = [JString ''hello'', JString ''xyzzy''] \<and>
   map category (local_match_signs ''xyzzy hello'') = [''greetings'', ''fingerspelled''] \<and>
   local_match_signs ''xyzzy hello'' \<noteq> spec_output_order ''xyzzy hello''"
proof -
  have t: "tokens (str_lower ''xyzzy hello'') = [''xyzzy'', ''hello'']"
    by code_simp
  have a: "map matched_from (local_match_signs ''xyzzy hello'') = [JString ''hello'', JString ''xyzzy'']"
    by code_simp
  have b: "map category (local_match_signs ''xyzzy hello'') = [''greetings'', ''fingerspelled'']"
    by code_simp
  have c: "map matched_from (spec_output_order ''xyzzy hello'') = [JString ''xyzzy'', JString ''hello'']"
    by code_simp
  have "local_match_signs ''xyzzy hello'' \<noteq> spec_output_order ''xyzzy hello''"
  proof
    assume "local_match_signs ''xyzzy hello'' = spec_output_order ''xyzzy hello''"
    then have "map matched_from (local_match_signs ''xyzzy hello'') =
               map matched_from (spec_output_order ''xyzzy hello'')"
      by simp
    then show False
      unfolding a c by simp
  qed
  with t a b show ?thesis
    by simp
qed

text \<open>
  C2 (as amended). For every entry \<open>e\<close> and every string \<open>s\<close>, in particular every
  synonym \<open>s\<close> of \<open>e\<close> that is not a vocabulary key: \<open>local_match_signs s\<close> contains a
  result whose vocabulary fields are those of \<open>e\<close> and whose confidence is 0.85 if and
  only if some token of \<open>s\<close> is not a vocabulary key and \<open>e\<close> is the first entry of the
  table, in insertion order, whose synonyms list contains that token.
\<close>

theorem synonym_result_characterised:
  "(\<exists>m \<in> set (local_match_signs s). vocabulary_fields m = e \<and> confidence m = JNumber 0.85) \<longleftrightarrow>
   (\<exists>w \<in> set (tokens (str_lower s)).
      w \<notin> set (map fst SIGN_VOCABULARY) \<and>
      (\<exists>i<length SIGN_VOCABULARY.
         snd (SIGN_VOCABULARY ! i) = e \<and> w \<in> set (synonyms e) \<and>
         (\<forall>j<i. w \<notin> set (synonyms (snd (SIGN_VOCABULARY ! j))))))"
proof
  assume "\<exists>m \<in> set (local_match_signs s). vocabulary_fields m = e \<and> confidence m = JNumber 0.85"
  then obtain m where m: "m \<in> set (local_match_signs s)" and e: "vocabulary_fields m = e"
    and c: "confidence m = JNumber 0.85"
    by blast
  let ?ws = "tokens (str_lower s)"
  from m consider
      "m \<in> set (phrase_matches (str_lower s))"
    | "m \<in> set (token_matches ?ws)"
    | "m \<in> set (fingerspell_matches ?ws)"
    unfolding local_match_signs_segments by auto
  then show "\<exists>w \<in> set ?ws. w \<notin> set (map fst SIGN_VOCABULARY) \<and>
      (\<exists>i<length SIGN_VOCABULARY.
         snd (SIGN_VOCABULARY ! i) = e \<and> w \<in> set (synonyms e) \<and>
         (\<forall>j<i. w \<notin> set (synonyms (snd (SIGN_VOCABULARY ! j)))))"
  proof cases
    case 1
    then have "confidence m = JNumber 1.0"
      by (auto simp: phrase_matches_def vocab_match_def)
    with c show ?thesis
      by simp
  next
    case 2
    then obtain w where w: "w \<in> set ?ws" and hit: "word_hit w = Some m"
      by (auto simp: token_matches_def List.map_filter_def set_first_occurrences)
    have "w \<notin> set (map fst SIGN_VOCABULARY) \<and> synonym_match SIGN_VOCABULARY w = Some e"
      using synonym_hit_iff [of w e] hit e c by blast
    then show ?thesis
      using w synonym_match_index [of SIGN_VOCABULARY w e] by blast
  next
    case 3
    then have "confidence m = JNumber 0.5"
      by (auto simp: fingerspell_matches_def fingerspelled_def)
    with c show ?thesis
      by simp
  qed
next
  assume "\<exists>w \<in> set (tokens (str_lower s)).
      w \<notin> set (map fst SIGN_VOCABULARY) \<and>
      (\<exists>i<length SIGN_VOCABULARY.
         snd (SIGN_VOCABULARY ! i) = e \<and> w \<in> set (synonyms e) \<and>
         (\<forall>j<i. w \<notin> set (synonyms (snd (SIGN_VOCABULARY ! j)))))"
  then obtain w i where w: "w \<in> set (tokens (str_lower s))"
    and nk: "w \<notin> set (map fst SIGN_VOCABULARY)"
    and i: "i < length SIGN_VOCABULARY" "snd (SIGN_VOCABULARY ! i) = e" "w \<in> set (synonyms e)"
      "\<forall>j<i. w \<notin> set (synonyms (snd (SIGN_VOCABULARY ! j)))"
    by blast
  have "SIGN_VOCABULARY ! i = (fst (SIGN_VOCABULARY ! i), e)"
    using i(2) by (simp add: prod_eq_iff)
  then have "synonym_match SIGN_VOCABULARY w = Some e"
    using i by (intro synonym_match_first) auto
  then obtain m where hit: "word_hit w = Some m" and m: "vocabulary_fields m = e"
    "confidence m = JNumber 0.85"
    using synonym_hit_iff [of w e] nk by blast
  have "m \<in> set (token_matches (tokens (str_lower s)))"
    using w hit by (force simp: token_matches_def List.map_filter_def set_first_occurrences)
  then have "m \<in> set (local_match_signs s)"
    unfolding local_match_signs_segments by simp
  then show "\<exists>m \<in> set (local_match_signs s). vocabulary_fields m = e \<and> confidence m = JNumber 0.85"
    using m by blast
qed

text \<open>
  The multi-word synonym \<open>say again\<close> of the entry \<open>repeat\<close>: its token \<open>again\<close> is not a
  key and \<open>repeat\<close>, preceded by 24 entries, is the first entry that lists it, so the
  output contains \<open>repeat\<close> with confidence 0.85.
\<close>

theorem synonym_result_characterised_witness:
  "map_option synonyms (map_of SIGN_VOCABULARY ''repeat'') =
     Some [''again'', ''say again'', ''one more time''] \<and>
   tokens (str_lower ''say again'') = [''say'', ''again''] \<and>
   ''again'' \<notin> set (map fst SIGN_VOCABULARY) \<and>
   map_option word (synonym_match SIGN_VOCABULARY ''again'') = Some ''repeat'' \<and>
   (\<exists>m \<in> set (local_match_signs ''say again''). word m = ''repeat'' \<and> confidence m = JNumber 0.85)"
proof -
  have a: "map_option synonyms (map_of SIGN_VOCABULARY ''repeat'') =
     Some [''again'', ''say again'', ''one more time'']"
    by code_simp
  have t: "tokens (str_lower ''say again'') = [''say'', ''again'']"
    by code_simp
  have nk: "''again'' \<notin> set (map fst SIGN_VOCABULARY)"
    by code_simp
  have sm: "map_option word (synonym_match SIGN_VOCABULARY ''again'') = Some ''repeat''"
    by code_simp
  then obtain e where e: "synonym_match SIGN_VOCABULARY ''again'' = Some e" and we: "word e = ''repeat''"
    by auto
  from synonym_match_index [OF e] obtain i where
    "i < length SIGN_VOCABULARY \<and> snd (SIGN_VOCABULARY ! i) = e \<and> ''again'' \<in> set (synonyms e) \<and>
       (\<forall>j<i. ''again'' \<notin> set (synonyms (snd (SIGN_VOCABULARY ! j))))"
    by blast
  then have "\<exists>w \<in> set (tokens (str_lower ''say again'')).
      w \<notin> set (map fst SIGN_VOCABULARY) \<and>
      (\<exists>i<length SIGN_VOCABULARY.
         snd (SIGN_VOCABULARY ! i) = e \<and> w \<in> set (synonyms e) \<and>
         (\<forall>j<i. w \<notin> set (synonyms (snd (SIGN_VOCABULARY ! j)))))"
    unfolding t using nk by auto
  from synonym_result_characterised [of "''say again''" e, THEN iffD2, OF this]
  obtain m where "m \<in> set (local_match_signs ''say again'')" "vocabulary_fields m = e"
    "confidence m = JNumber 0.85"
    by blast
  moreover from this have "word m = ''repeat''"
    using we by (auto simp: vocabulary_fields_def)
  ultimately have "\<exists>m \<in> set (local_match_signs ''say again''). word m = ''repeat'' \<and> confidence m = JNumber 0.85"
    by blast
  with a t nk sm show ?thesis
    by (simp only: simp_thms)
qed

text \<open>
  Two inputs on which C2 as stated fails: \<open>see you\<close> is a synonym of \<open>goodbye\<close> and not a
  key, but its two tokens are fingerspelled; \<open>dark\<close> is a synonym of \<open>black\<close> and not a
  key, but the only result is the entry \<open>night\<close>, which lists \<open>dark\<close> first.
\<close>

theorem synonym_match_counterexample:
  "map_option synonyms (map_of SIGN_VOCABULARY ''goodbye'') =
     Some [''bye'', ''farewell'', ''see you'', ''later''] \<and>
   ''see you'' \<notin> set (map fst SIGN_VOCABULARY) \<and>
   map word (local_match_signs ''see you'') = [''see'', ''you''] \<and>
   map category (local_match_signs ''see you'') = [''fingerspelled'', ''fingerspelled''] \<and>
   map_option synonyms (map_of SIGN_VOCABULARY ''black'') = Some [''dark''] \<and>
   ''dark'' \<notin> set (map fst SIGN_VOCABULARY) \<and>
   map word (local_match_signs ''dark'') = [''night'']"
proof -
  have a: "map_option synonyms (map_of SIGN_VOCABULARY ''goodbye'') =
             Some [''bye'', ''farewell'', ''see you'', ''later'']"
    by code_simp
  have b: "''see you'' \<notin> set (map fst SIGN_VOCABULARY)"
    by code_simp
  have c: "map word (local_match_signs ''see you'') = [''see'', ''you'']"
    by code_simp
  have d: "map category (local_match_signs ''see you'') = [''fingerspelled'', ''fingerspelled'']"
    by code_simp
  have e: "map_option synonyms (map_of SIGN_VOCABULARY ''black'') = Some [''dark'']"
    by code_simp
  have f: "''dark'' \<notin> set (map fst SIGN_VOCABULARY)"
    by code_simp
  have g: "map word (local_match_signs ''dark'') = [''night'']"
    by code_simp
  from a b c d e f g show ?thesis
    by (simp only: simp_thms)
qed

text \<open>
  C3. For every key \<open>k\<close> of the vocabulary table, \<open>local_match_signs k\<close> contains a result
  with word \<open>k\<close> and confidence 1.0; and on the empty text the result is the empty list.
\<close>

theorem every_key_matches_itself:
  "(\<forall>k \<in> set (map fst SIGN_VOCABULARY).
      \<exists>m \<in> set (local_match_signs k). word m = k \<and> confidence m = JNumber 1.0) \<and>
   local_match_signs [] = []"
proof (intro conjI ballI)
  fix k
  assume "k \<in> set (map fst SIGN_VOCABULARY)"
  then obtain d where kd: "(k, d) \<in> set SIGN_VOCABULARY"
    by auto
  have wd: "word d = k" and low: "str_lower k = k"
    and shape: "CHR '' '' \<in> set k \<or> tokens k = [k]"
    using vocabulary_entry [OF kd] by blast+
  let ?m = "vocab_match d 1.0 k"
  have "?m \<in> set (local_match_signs k)"
  proof (cases "CHR '' '' \<in> set k")
    case True
    then have "is_phrase_of k (k, d)"
      by (simp add: is_phrase_of_def str_in_refl)
    then have "?m \<in> set (phrase_matches k)"
      using kd unfolding phrase_matches_def by force
    then show ?thesis
      unfolding local_match_signs_segments low by simp
  next
    case False
    then have tk: "tokens k = [k]"
      using shape by simp
    have "map_of SIGN_VOCABULARY k = Some d"
      using kd vocabulary_keys_distinct by simp
    then have "word_hit k = Some ?m"
      by (simp add: word_hit_def)
    then have "?m \<in> set (token_matches (tokens k))"
      unfolding tk token_matches_def by (simp add: List.map_filter_simps)
    then show ?thesis
      unfolding local_match_signs_segments low by simp
  qed
  moreover have "word ?m = k \<and> confidence ?m = JNumber 1.0"
    using wd by (simp add: vocab_match_def)
  ultimately show "\<exists>m \<in> set (local_match_signs k). word m = k \<and> confidence m = JNumber 1.0"
    by blast
next
  show "local_match_signs [] = []"
    by (rule empty_text_segments)
qed

theorem every_key_matches_itself_witness:
  "''thank you'' \<in> set (map fst SIGN_VOCABULARY) \<and>
   (\<exists>m \<in> set (local_match_signs ''thank you''). word m = ''thank you'' \<and> confidence m = JNumber 1.0)"
proof -
  have h: "''thank you'' \<in> set (map fst SIGN_VOCABULARY)"
    by code_simp
  from every_key_matches_itself [THEN conjunct1, THEN bspec, OF h] h show ?thesis
    by simp
qed


text \<open>
  C4. A token that the phrase, word and synonym passes have not consumed and that has at
  least one alphabetic character yields exactly one result: it is fingerspelled, its
  letters are the alphabetic characters of the token in order, and its confidence is 0.5.
  Such a token without alphabetic characters yields no result, and no result for a token
  without alphabetic characters carries letters. On \<open>xyzzy123\<close> the output is the single
  fingerspelled entry with letters x, y, z, z, y.
\<close>

theorem fingerspell_fallback:
  "(\<forall>w \<in> set (tokens (str_lower text)).
      (w \<notin> matched_before_fallback text \<longrightarrow>
         (if filter isalpha w = []
          then filter (\<lambda>m. matched_from m = JString w) (local_match_signs text) = []
          else \<exists>m. filter (\<lambda>m. matched_from m = JString w) (local_match_signs text) = [m] \<and>
                   word m = w \<and> category m = ''fingerspelled'' \<and>
                   letters m = Some (filter isalpha w) \<and> confidence m = JNumber 0.5)) \<and>
      (filter isalpha w = [] \<longrightarrow>
         (\<forall>m \<in> set (local_match_signs text). matched_from m = JString w \<longrightarrow> letters m = None))) \<and>
   map word (local_match_signs ''xyzzy123'') = [''xyzzy123''] \<and>
   map category (local_match_signs ''xyzzy123'') = [''fingerspelled''] \<and>
   map letters (local_match_signs ''xyzzy123'') = [Some ''xyzzy''] \<and>
   map confidence (local_match_signs ''xyzzy123'') = [JNumber 0.5]"
proof (intro conjI ballI impI)
  fix w
  assume w: "w \<in> set (tokens (str_lower text))" and free: "w \<notin> matched_before_fallback text"
  have none: "word_hit w = None"
    using token_consumed_iff [OF w] free by simp
  show "if filter isalpha w = []
        then filter (\<lambda>m. matched_from m = JString w) (local_match_signs text) = []
        else \<exists>m. filter (\<lambda>m. matched_from m = JString w) (local_match_signs text) = [m] \<and>
                 word m = w \<and> category m = ''fingerspelled'' \<and>
                 letters m = Some (filter isalpha w) \<and> confidence m = JNumber 0.5"
    unfolding matches_for_token [OF w] none by (simp add: fingerspelled_def)
next
  fix w m
  assume w: "w \<in> set (tokens (str_lower text))" and digits: "filter isalpha w = []"
    and m: "m \<in> set (local_match_signs text)" and from_w: "matched_from m = JString w"
  have "m \<in> set (filter (\<lambda>m. matched_from m = JString w) (local_match_signs text))"
    using m from_w by simp
  then have "word_hit w = Some m"
    unfolding matches_for_token [OF w] using digits by (simp split: option.splits)
  then show "letters m = None"
    by (rule word_hit_fields)
next
  have run: "local_match_signs ''xyzzy123'' = [fingerspelled ''xyzzy123'' ''xyzzy'' 0.5]"
    by code_simp
  show "map word (local_match_signs ''xyzzy123'') = [''xyzzy123'']"
    and "map category (local_match_signs ''xyzzy123'') = [''fingerspelled'']"
    and "map letters (local_match_signs ''xyzzy123'') = [Some ''xyzzy'']"
    and "map confidence (local_match_signs ''xyzzy123'') = [JNumber 0.5]"
    unfolding run by (simp_all add: fingerspelled_def)
qed

theorem fingerspell_fallback_witness:
  "''qwerty7'' \<in> set (tokens (str_lower ''7 Qwerty7 hello'')) \<and>
   ''qwerty7'' \<notin> matched_before_fallback ''7 Qwerty7 hello'' \<and>
   filter isalpha ''qwerty7'' \<noteq> [] \<and>
   (\<exists>m. filter (\<lambda>m. matched_from m = JString ''qwerty7'') (local_match_signs ''7 Qwerty7 hello'') = [m] \<and>
        letters m = Some ''qwerty'' \<and> confidence m = JNumber 0.5) \<and>
   ''7'' \<in> set (tokens (str_lower ''7 Qwerty7 hello'')) \<and>
   ''7'' \<notin> matched_before_fallback ''7 Qwerty7 hello'' \<and>
   filter isalpha ''7'' = [] \<and>
   filter (\<lambda>m. matched_from m = JString ''7'') (local_match_signs ''7 Qwerty7 hello'') = []"
proof -
  let ?text = "''7 Qwerty7 hello''"
  have t: "tokens (str_lower ?text) = [''7'', ''qwerty7'', ''hello'']"
    by code_simp
  have h1: "''qwerty7'' \<in> set (tokens (str_lower ?text))" and h2: "''7'' \<in> set (tokens (str_lower ?text))"
    unfolding t by simp_all
  have n1: "word_hit ''qwerty7'' = None" and n2: "word_hit ''7'' = None"
    by code_simp+
  have f1: "''qwerty7'' \<notin> matched_before_fallback ?text"
    and f2: "''7'' \<notin> matched_before_fallback ?text"
    using token_consumed_iff [OF h1] token_consumed_iff [OF h2] n1 n2 by simp_all
  have l1: "filter isalpha ''qwerty7'' = ''qwerty''" and l2: "filter isalpha ''7'' = []"
    by code_simp+
  note fb = fingerspell_fallback [of ?text, THEN conjunct1]
  from fb [THEN bspec, OF h1, THEN conjunct1, THEN mp, OF f1]
  have r1: "\<exists>m. filter (\<lambda>m. matched_from m = JString ''qwerty7'') (local_match_signs ?text) = [m] \<and>
        letters m = Some ''qwerty'' \<and> confidence m = JNumber 0.5"
    unfolding l1 by auto
  from fb [THEN bspec, OF h2, THEN conjunct1, THEN mp, OF f2]
  have r2: "filter (\<lambda>m. matched_from m = JString ''7'') (local_match_signs ?text) = []"
    unfolding l2 by simp
  from h1 h2 f1 f2 l1 l2 r1 r2 show ?thesis
    by simp
qed

text \<open>
  C5 (as amended). Repeated identical tokens are matched at most once: for every input
  and every token string of it, however often it occurs, \<open>local_match_signs\<close> emits at
  most one result for that token string, and exactly one when the token was consumed by
  the word or synonym pass or contains an alphabetic character. On \<open>yes yes\<close> the output
  is the single match for \<open>yes\<close>.
\<close>

theorem repeated_token_matched_once:
  "(\<forall>w \<in> set (tokens (str_lower text)).
      length (filter (\<lambda>m. matched_from m = JString w) (local_match_signs text)) \<le> 1 \<and>
      (w \<in> matched_before_fallback text \<or> filter isalpha w \<noteq> [] \<longrightarrow>
         length (filter (\<lambda>m. matched_from m = JString w) (local_match_signs text)) = 1)) \<and>
   tokens (str_lower ''yes yes'') = [''yes'', ''yes''] \<and>
   map matched_from (local_match_signs ''yes yes'') = [JString ''yes''] \<and>
   map word (local_match_signs ''yes yes'') = [''yes'']"
proof (intro conjI ballI impI)
  fix w
  assume w: "w \<in> set (tokens (str_lower text))"
  show "length (filter (\<lambda>m. matched_from m = JString w) (local_match_signs text)) \<le> 1"
    unfolding matches_for_token [OF w] by (simp split: option.splits)
  assume "w \<in> matched_before_fallback text \<or> filter isalpha w \<noteq> []"
  then have "word_hit w \<noteq> None \<or> filter isalpha w \<noteq> []"
    using token_consumed_iff [OF w] by simp
  then show "length (filter (\<lambda>m. matched_from m = JString w) (local_match_signs text)) = 1"
    unfolding matches_for_token [OF w] by (auto split: option.splits)
next
  show "tokens (str_lower ''yes yes'') = [''yes'', ''yes'']"
    by code_simp
  show "map matched_from (local_match_signs ''yes yes'') = [JString ''yes'']"
    by code_simp
  show "map word (local_match_signs ''yes yes'') = [''yes'']"
    by code_simp
qed

theorem repeated_token_matched_once_witness:
  "''yes'' \<in> set (tokens (str_lower ''yes yes'')) \<and>
   ''yes'' \<in> matched_before_fallback ''yes yes'' \<and>
   length (filter (\<lambda>m. matched_from m = JString ''yes'') (local_match_signs ''yes yes'')) = 1"
proof -
  have t: "tokens (str_lower ''yes yes'') = [''yes'', ''yes'']"
    by code_simp
  have h: "''yes'' \<in> set (tokens (str_lower ''yes yes''))"
    unfolding t by simp
  have "word_hit ''yes'' \<noteq> None"
    by code_simp
  then have c: "''yes'' \<in> matched_before_fallback ''yes yes''"
    using token_consumed_iff [OF h] by simp
  from repeated_token_matched_once [of "''yes yes''", THEN conjunct1, THEN bspec, OF h] h c
  show ?thesis
    by simp
qed

text \<open>
  The token \<open>42\<close> occurs twice in \<open>42 42\<close>; it is neither a key nor a synonym and has no
  letter, and the output holds no result for it, not one.
\<close>

theorem repeated_token_counterexample:
  "tokens (str_lower ''42 42'') = [''42'', ''42''] \<and> local_match_signs ''42 42'' = []"
proof -
  have a: "tokens (str_lower ''42 42'') = [''42'', ''42'']"
    by code_simp
  have b: "local_match_signs ''42 42'' = []"
    by code_simp
  from a b show ?thesis
    by simp
qed

text \<open>
  C9. A phrase match does not consume its constituent tokens: on \<open>good morning\<close> the
  output is the entry \<open>good morning\<close> with confidence 1.0 (phrase pass), the entry \<open>good\<close>
  with confidence 1.0 (word pass), and the entry \<open>good morning\<close> a second time with
  confidence 0.85 (synonym pass on the token \<open>morning\<close>).
\<close>

theorem phrase_does_not_consume_tokens:
  "map word (local_match_signs ''good morning'') = [''good morning'', ''good'', ''good morning''] \<and>
   map confidence (local_match_signs ''good morning'') = [JNumber 1.0, JNumber 1.0, JNumber 0.85] \<and>
   map matched_from (local_match_signs ''good morning'') =
     [JString ''good morning'', JString ''good'', JString ''morning'']"
proof -
  have a: "map word (local_match_signs ''good morning'') = [''good morning'', ''good'', ''good morning'']"
    by code_simp
  have b: "map confidence (local_match_signs ''good morning'') = [JNumber 1.0, JNumber 1.0, JNumber 0.85]"
    by code_simp
  have c: "map matched_from (local_match_signs ''good morning'') =
     [JString ''good morning'', JString ''good'', JString ''morning'']"
    by code_simp
  from a b c show ?thesis
    by (simp only: simp_thms)
qed

text \<open>
  C10. For every input text, every result of \<open>local_match_signs\<close> has a confidence drawn
  from 1.0, 0.85 and 0.5, which is a number between 0 and 1.
\<close>

theorem local_confidence_values:
  "\<forall>m \<in> set (local_match_signs text).
     confidence m \<in> {JNumber 1.0, JNumber 0.85, JNumber 0.5} \<and>
     (\<exists>r. confidence m = JNumber r \<and> 0 \<le> r \<and> r \<le> 1)"
proof
  fix m
  assume "m \<in> set (local_match_signs text)"
  then have "confidence m = JNumber 1.0 \<or> confidence m = JNumber 0.85 \<or> confidence m = JNumber 0.5"
    by (rule segment_confidences)
  then show "confidence m \<in> {JNumber 1.0, JNumber 0.85, JNumber 0.5} \<and>
     (\<exists>r. confidence m = JNumber r \<and> 0 \<le> r \<and> r \<le> 1)"
    by auto
qed

theorem local_confidence_values_witness:
  "map confidence (local_match_signs ''thank you, hi zzz'') =
     [JNumber 1.0, JNumber 0.85, JNumber 0.5, JNumber 0.5, JNumber 0.5] \<and>
   confidence (local_match_signs ''thank you, hi zzz'' ! 1) \<in> {JNumber 1.0, JNumber 0.85, JNumber 0.5} \<and>
   (\<exists>r. confidence (local_match_signs ''thank you, hi zzz'' ! 1) = JNumber r \<and> 0 \<le> r \<and> r \<le> 1)"
proof -
  let ?out = "local_match_signs ''thank you, hi zzz''"
  have run: "map confidence ?out = [JNumber 1.0, JNumber 0.85, JNumber 0.5, JNumber 0.5, JNumber 0.5]"
    by code_simp
  have "length (map confidence ?out) = 5"
    unfolding run by simp
  then have "?out ! 1 \<in> set ?out"
    by simp
  from local_confidence_values [of "''thank you, hi zzz''", THEN bspec, OF this] run show ?thesis
    by (simp only: simp_thms)
qed


section \<open>Facts about the handler's parts\<close>

lemma gemini_result_shape:
  "(\<exists>signs. fst (gemini_match_signs env text) = (Some signs, None)) \<or>
   (\<exists>e. fst (gemini_match_signs env text) = (None, Some e))"
  by (simp add: gemini_match_signs_def split: service_outcome.splits parse_outcome.splits sum.splits)

lemma gemini_sends_at_most_once: "length (snd (gemini_match_signs env text)) \<le> 1"
  by (simp add: gemini_match_signs_def split: service_outcome.splits parse_outcome.splits sum.splits)

lemma match_signs_text_sends_at_most_once: "length (snd (match_signs_text env kvs raw)) \<le> 1"
proof -
  obtain r e sent where g: "gemini_match_signs env (take 2000 (str_strip raw)) = ((r, e), sent)"
    by (metis surj_pair)
  have "length sent \<le> 1"
    using gemini_sends_at_most_once [of env "take 2000 (str_strip raw)"] g by simp
  then show ?thesis
    by (simp add: match_signs_text_def Let_def g split: option.splits)
qed

lemma match_signs_sends_at_most_once: "length (snd (match_signs env req)) \<le> 1"
  using match_signs_text_sends_at_most_once [of env]
  by (simp add: match_signs_def split: request_body.splits json.splits option.splits)

lemma match_signs_text_ok:
  "status (fst (match_signs_text env kvs raw)) = 200 \<and>
   resp_method (fst (match_signs_text env kvs raw)) \<in> {Some ''fingerspell'', Some ''gemini'', Some ''local''} \<and>
   resp_signs (fst (match_signs_text env kvs raw)) \<noteq> None \<and>
   resp_error (fst (match_signs_text env kvs raw)) = None"
proof -
  obtain r e sent where g: "gemini_match_signs env (take 2000 (str_strip raw)) = ((r, e), sent)"
    by (metis surj_pair)
  show ?thesis
    by (simp add: match_signs_text_def Let_def g ok_response_def local_response_def
        split: option.splits)
qed

lemma add_video_urls_clear:
  "(add_video_urls files url s)\<lparr>video_url := None, letter_videos := None\<rparr> =
   s\<lparr>video_url := None, letter_videos := None\<rparr>"
  by (simp add: add_video_urls_def Let_def split: option.splits)

lemma with_videos_clear:
  "map (\<lambda>m. m\<lparr>video_url := None, letter_videos := None\<rparr>) (with_videos env signs) =
   map (\<lambda>m. m\<lparr>video_url := None, letter_videos := None\<rparr>) signs"
  by (simp add: with_videos_def add_video_urls_to_signs_def add_video_urls_clear comp_def
      split: dir_listing.splits)

lemma with_videos_no_listing:
  "\<forall>fns. videos_dir env \<noteq> Listing fns \<Longrightarrow> with_videos env signs = signs"
  by (simp add: with_videos_def add_video_urls_to_signs_def split: dir_listing.splits)

lemma add_video_urls_keeps_text:
  "synonyms (add_video_urls files url s) = synonyms s"
  "description (add_video_urls files url s) = description s"
  by (simp_all add: add_video_urls_def Let_def split: option.splits)

lemma with_videos_keeps_text:
  "map synonyms (with_videos env signs) = map synonyms signs"
  "map description (with_videos env signs) = map description signs"
  by (simp_all add: with_videos_def add_video_urls_to_signs_def add_video_urls_keeps_text comp_def
      split: dir_listing.splits)

lemma add_video_urls_keeps:
  "word (add_video_urls files url s) = word s"
  "category (add_video_urls files url s) = category s"
  "letters (add_video_urls files url s) = letters s"
  "confidence (add_video_urls files url s) = confidence s"
  "matched_from (add_video_urls files url s) = matched_from s"
  by (simp_all add: add_video_urls_def Let_def split: option.splits)

lemma with_videos_keeps:
  "map word (with_videos env signs) = map word signs"
  "map category (with_videos env signs) = map category signs"
  "map letters (with_videos env signs) = map letters signs"
  "map confidence (with_videos env signs) = map confidence signs"
  "map matched_from (with_videos env signs) = map matched_from signs"
  by (simp_all add: with_videos_def add_video_urls_to_signs_def add_video_urls_keeps comp_def
      split: dir_listing.splits)

lemma forced_signs_eq:
  "forced_signs ws =
     map (\<lambda>w. fingerspelled w (filter isalpha w) 1.0) (filter (\<lambda>w. filter isalpha w \<noteq> []) ws)"
  by (induction ws) (simp_all add: Let_def)

lemma split_from_chars:
  "w \<in> set (split_from cur s) \<Longrightarrow> set w \<subseteq> set cur \<union> set s"
proof (induction s arbitrary: cur)
  case Nil
  then show ?case by (simp split: if_splits)
next
  case (Cons c cs)
  show ?case
  proof (cases "isspace c")
    case True
    then have "w = cur \<or> w \<in> set (split_from [] cs)"
      using Cons.prems by (simp split: if_splits)
    then show ?thesis
      using Cons.IH [of "[]"] by auto
  next
    case False
    then have "w \<in> set (split_from (cur @ [c]) cs)"
      using Cons.prems by simp
    then show ?thesis
      using Cons.IH [of "cur @ [c]"] by auto
  qed
qed

lemma concat_split_from:
  "concat (split_from cur s) = cur @ filter (\<lambda>c. \<not> isspace c) s"
  by (induction s arbitrary: cur) auto

lemma alnum_not_space: "ascii_alnum c \<Longrightarrow> \<not> isspace c"
  by (auto simp: ascii_alnum_def isspace_def Let_def)

lemma forced_words_alnum:
  assumes "w \<in> set (forced_words text)"
  shows "w \<noteq> [] \<and> list_all ascii_alnum w"
proof -
  from assms have w: "w \<in> set (str_split (re_sub_non_alnum text))"
    by (simp add: forced_words_def)
  then have ne: "w \<noteq> []" and ns: "list_all (\<lambda>c. \<not> isspace c) w"
    using str_split_no_space by blast+
  have "set w \<subseteq> set (re_sub_non_alnum text)"
    using w split_from_chars [of w "[]"] by (simp add: str_split_def)
  then have "\<forall>c \<in> set w. ascii_alnum c \<or> isspace c"
    by (auto simp: re_sub_non_alnum_def isspace_space)
  then show ?thesis
    using ne ns by (auto simp: list_all_iff)
qed

lemma concat_drop_empty: "concat (filter (\<lambda>w. w \<noteq> []) xs) = concat xs"
  by (induction xs) auto

lemma forced_words_concat: "concat (forced_words s) = filter ascii_alnum s"
proof -
  have "concat (forced_words s) = concat (str_split (re_sub_non_alnum s))"
    unfolding forced_words_def by (rule concat_drop_empty)
  also have "\<dots> = filter (\<lambda>c. \<not> isspace c) (re_sub_non_alnum s)"
    by (simp add: str_split_def concat_split_from)
  also have "\<dots> = filter ascii_alnum s"
    unfolding re_sub_non_alnum_def
    by (induction s) (auto simp: isspace_space alnum_not_space)
  finally show ?thesis .
qed


lemma split_from_cut:
  "isspace c \<Longrightarrow> split_from cur (a @ c # b) = split_from cur a @ split_from [] b"
  by (induction a arbitrary: cur) auto

lemma re_sub_separator: "\<not> ascii_alnum d \<Longrightarrow> isspace (if ascii_alnum d \<or> isspace d then d else CHR '' '')"
  by (simp add: isspace_space)

lemma forced_words_cut:
  assumes "\<not> ascii_alnum d"
  shows "forced_words (u @ d # v) = forced_words u @ forced_words v"
proof -
  let ?c = "if ascii_alnum d \<or> isspace d then d else CHR '' ''"
  have "re_sub_non_alnum (u @ d # v) = re_sub_non_alnum u @ ?c # re_sub_non_alnum v"
    by (simp add: re_sub_non_alnum_def)
  then have "str_split (re_sub_non_alnum (u @ d # v)) =
             str_split (re_sub_non_alnum u) @ str_split (re_sub_non_alnum v)"
    unfolding str_split_def using split_from_cut [OF re_sub_separator [OF assms]] by simp
  then show ?thesis
    by (simp add: forced_words_def)
qed

lemma forced_words_run:
  assumes "w \<noteq> []" and "list_all ascii_alnum w"
  shows "forced_words w = [w]"
proof -
  have same: "re_sub_non_alnum w = w"
    using assms(2) unfolding re_sub_non_alnum_def by (induction w) auto
  have "list_all (\<lambda>c. \<not> isspace c) w"
    using assms(2) alnum_not_space by (auto simp: list_all_iff)
  then have "str_split w = [w]"
    using assms(1) by (intro str_split_single)
  then show ?thesis
    using assms(1) by (simp add: forced_words_def same)
qed

lemma forced_words_empty: "forced_words [] = []"
  by (simp add: forced_words_def re_sub_non_alnum_def str_split_def)

lemma enrich_matches_step:
  assumes "well_formed_match m"
  shows "enrich_matches (m # ms) acc =
           enrich_matches ms (acc @ (case remote_result m of Some r \<Rightarrow> [r] | None \<Rightarrow> []))"
proof -
  from assms obtain kvs where m: "m = JObject kvs"
    by (auto simp: well_formed_match_def split: json.splits)
  show ?thesis
  proof (cases "map_of kvs ''word''")
    case None
    then show ?thesis
      by (simp add: m dict_get_def item_word_def remote_result_def remote_match_def
          str_lower_def split: option.splits)
  next
    case (Some v)
    then obtain s where v: "v = JString s"
      using assms by (auto simp: m well_formed_match_def split: json.splits)
    show ?thesis
      by (simp add: m Some v dict_get_def item_word_def remote_result_def remote_match_def
          split: option.splits)
  qed
qed

lemma enrich_matches_ok:
  "list_all well_formed_match ms \<Longrightarrow>
   enrich_matches ms acc = Inr (acc @ List.map_filter remote_result ms)"
proof (induction ms arbitrary: acc)
  case Nil
  show ?case by (simp add: List.map_filter_simps)
next
  case (Cons m ms)
  then have wf: "well_formed_match m" and rest: "list_all well_formed_match ms"
    by simp_all
  have "enrich_matches (m # ms) acc =
          enrich_matches ms (acc @ (case remote_result m of Some r \<Rightarrow> [r] | None \<Rightarrow> []))"
    using wf by (rule enrich_matches_step)
  also have "\<dots> = Inr ((acc @ (case remote_result m of Some r \<Rightarrow> [r] | None \<Rightarrow> [])) @
                      List.map_filter remote_result ms)"
    using rest by (rule Cons.IH)
  also have "\<dots> = Inr (acc @ List.map_filter remote_result (m # ms))"
    by (cases "remote_result m") (simp_all add: List.map_filter_simps)
  finally show ?case .
qed

lemma enrich_matches_reject:
  "\<not> well_formed_match m \<Longrightarrow> enrich_matches (m # ms) acc = Inl AttributeError"
  by (auto simp: well_formed_match_def dict_get_def split: json.splits option.splits)

lemma enrich_matches_fails:
  "\<not> list_all well_formed_match ms \<Longrightarrow> enrich_matches ms acc = Inl AttributeError"
proof (induction ms arbitrary: acc)
  case Nil
  then show ?case by simp
next
  case (Cons m ms)
  show ?case
  proof (cases "well_formed_match m")
    case False
    then show ?thesis
      by (rule enrich_matches_reject)
  next
    case True
    then have "\<not> list_all well_formed_match ms"
      using Cons.prems by simp
    then have "enrich_matches ms (acc @ (case remote_result m of Some r \<Rightarrow> [r] | None \<Rightarrow> [])) =
               Inl AttributeError"
      by (rule Cons.IH)
    then show ?thesis
      using enrich_matches_step [OF True] by simp
  qed
qed

lemma gemini_sends_when_keyed:
  "GEMINI_API_KEY env \<noteq> [] \<Longrightarrow> snd (gemini_match_signs env t) = [t]"
  by (simp add: gemini_match_signs_def split: service_outcome.splits parse_outcome.splits sum.splits)


lemma length_with_videos: "length (with_videos env signs) = length signs"
  by (simp add: with_videos_def add_video_urls_to_signs_def split: dir_listing.splits)

lemma match_signs_valid_text:
  "map_of kvs ''text'' = Some (JString raw) \<Longrightarrow> str_strip raw \<noteq> [] \<Longrightarrow>
   match_signs env (Body (JObject kvs)) = match_signs_text env kvs raw"
  by (simp add: match_signs_def)

section \<open>Claims about the remote matcher and the request handler\<close>

text \<open>
  C6. The remote matcher never raises past its boundary. Without a credential
  \<open>gemini_match_signs\<close> returns \<open>(None, reason)\<close> and sends nothing. With one, it sends the
  text once, and every failure gives \<open>(None, detail)\<close>: the service call raising, the reply
  not parsing, the parsed value not being iterable (null, a boolean, a number), and the
  enrichment loop meeting an item that is not an object with a string \<open>word\<close> (also the
  keys of a non-empty object and the characters of a non-empty string); only a list of
  well-formed items (or an empty object or string) gives a result list, which holds the
  entry of each item whose lower-cased word is a vocabulary key. In every case the result
  is a list with no error or \<open>None\<close> with an error. Whenever the result on the request's
  text is \<open>None\<close> and fingerspelling is not forced, the handler answers with status 200,
  method \<open>local\<close>, the text, and the results of \<open>local_match_signs\<close> on it, changed at
  most in the video keys the enrichment adds (and unchanged when no directory listing is
  available); what it has sent is the text once when the remote matcher was tried and
  nothing otherwise. No request makes the handler send more than one text, so the call
  is never retried.
\<close>

theorem remote_matcher_never_raises:
  "(GEMINI_API_KEY env = [] \<longrightarrow> gemini_match_signs env t = ((None, Some NoApiKey), [])) \<and>
   (\<forall>msg. GEMINI_API_KEY env \<noteq> [] \<and> generate_content env t = Raises msg \<longrightarrow>
      gemini_match_signs env t = ((None, Some (ApiError (ServiceFailure msg))), [t])) \<and>
   (\<forall>raw msg. GEMINI_API_KEY env \<noteq> [] \<and> generate_content env t = Replies raw \<and>
      json_loads env (strip_code_fence (str_strip raw)) = JSONDecodeError msg \<longrightarrow>
      gemini_match_signs env t = ((None, Some (ParseFailure msg)), [t])) \<and>
   (\<forall>raw v. GEMINI_API_KEY env \<noteq> [] \<and> generate_content env t = Replies raw \<and>
      json_loads env (strip_code_fence (str_strip raw)) = Parsed v \<longrightarrow>
      gemini_match_signs env t =
        (case v of
           JNull \<Rightarrow> ((None, Some (ApiError TypeError)), [t])
         | JBool b \<Rightarrow> ((None, Some (ApiError TypeError)), [t])
         | JNumber r \<Rightarrow> ((None, Some (ApiError TypeError)), [t])
         | JString s \<Rightarrow>
             if s = [] then ((Some [], None), [t])
             else ((None, Some (ApiError AttributeError)), [t])
         | JObject kvs \<Rightarrow>
             if kvs = [] then ((Some [], None), [t])
             else ((None, Some (ApiError AttributeError)), [t])
         | JArray xs \<Rightarrow>
             if list_all well_formed_match xs
             then ((Some (List.map_filter remote_result xs), None), [t])
             else ((None, Some (ApiError AttributeError)), [t]))) \<and>
   ((\<exists>signs. fst (gemini_match_signs env t) = (Some signs, None)) \<or>
    (\<exists>e. fst (gemini_match_signs env t) = (None, Some e))) \<and>
   (\<forall>kvs raw. map_of kvs ''text'' = Some (JString raw) \<and> str_strip raw \<noteq> [] \<and>
      \<not> truthy (dict_get kvs ''force_fingerspell'' (JBool False)) \<and>
      fst (fst (gemini_match_signs env (take 2000 (str_strip raw)))) = None \<longrightarrow>
      (\<exists>signs.
         match_signs env (Body (JObject kvs)) =
           (\<lparr>status = 200, resp_signs = Some signs, resp_method = Some ''local'',
             resp_text = Some (take 2000 (str_strip raw)), resp_error = None\<rparr>,
            if truthy (dict_get kvs ''use_ai'' (JBool True)) \<and> GEMINI_API_KEY env \<noteq> []
            then [take 2000 (str_strip raw)] else []) \<and>
         map (\<lambda>m. m\<lparr>video_url := None, letter_videos := None\<rparr>) signs =
           local_match_signs (take 2000 (str_strip raw)) \<and>
         ((\<forall>fns. videos_dir env \<noteq> Listing fns) \<longrightarrow>
            signs = local_match_signs (take 2000 (str_strip raw))))) \<and>
   (\<forall>req. length (snd (match_signs env req)) \<le> 1)"
proof (intro conjI allI impI)
  show "gemini_match_signs env t = ((None, Some NoApiKey), [])" if "GEMINI_API_KEY env = []"
    using that by (simp add: gemini_match_signs_def)
next
  fix msg
  assume "GEMINI_API_KEY env \<noteq> [] \<and> generate_content env t = Raises msg"
  then show "gemini_match_signs env t = ((None, Some (ApiError (ServiceFailure msg))), [t])"
    by (simp add: gemini_match_signs_def)
next
  fix raw msg
  assume "GEMINI_API_KEY env \<noteq> [] \<and> generate_content env t = Replies raw \<and>
      json_loads env (strip_code_fence (str_strip raw)) = JSONDecodeError msg"
  then show "gemini_match_signs env t = ((None, Some (ParseFailure msg)), [t])"
    by (simp add: gemini_match_signs_def)
next
  fix raw v
  assume h: "GEMINI_API_KEY env \<noteq> [] \<and> generate_content env t = Replies raw \<and>
      json_loads env (strip_code_fence (str_strip raw)) = Parsed v"
  have run: "gemini_match_signs env t =
      (case py_iter v of
         Inl e \<Rightarrow> ((None, Some (ApiError e)), [t])
       | Inr ms \<Rightarrow>
           (case enrich_matches ms [] of
              Inl e \<Rightarrow> ((None, Some (ApiError e)), [t])
            | Inr enriched_matches \<Rightarrow> ((Some enriched_matches, None), [t])))"
    using h by (simp add: gemini_match_signs_def)
  show "gemini_match_signs env t =
        (case v of
           JNull \<Rightarrow> ((None, Some (ApiError TypeError)), [t])
         | JBool b \<Rightarrow> ((None, Some (ApiError TypeError)), [t])
         | JNumber r \<Rightarrow> ((None, Some (ApiError TypeError)), [t])
         | JString s \<Rightarrow>
             if s = [] then ((Some [], None), [t])
             else ((None, Some (ApiError AttributeError)), [t])
         | JObject kvs \<Rightarrow>
             if kvs = [] then ((Some [], None), [t])
             else ((None, Some (ApiError AttributeError)), [t])
         | JArray xs \<Rightarrow>
             if list_all well_formed_match xs
             then ((Some (List.map_filter remote_result xs), None), [t])
             else ((None, Some (ApiError AttributeError)), [t]))"
  proof (cases v)
    case JNull
    then show ?thesis by (simp add: run py_iter_def)
  next
    case (JBool b)
    then show ?thesis by (simp add: run py_iter_def)
  next
    case (JNumber r)
    then show ?thesis by (simp add: run py_iter_def)
  next
    case (JString s)
    show ?thesis
    proof (cases s)
      case Nil
      then show ?thesis by (simp add: run JString py_iter_def)
    next
      case (Cons c cs)
      have "\<not> well_formed_match (JString [c])"
        by (simp add: well_formed_match_def)
      then show ?thesis
        by (simp add: run JString Cons py_iter_def enrich_matches_reject)
    qed
  next
    case (JObject kvs)
    show ?thesis
    proof (cases kvs)
      case Nil
      then show ?thesis by (simp add: run JObject py_iter_def)
    next
      case (Cons kv rest)
      have "\<not> well_formed_match (JString (fst kv))"
        by (simp add: well_formed_match_def)
      then show ?thesis
        by (simp add: run JObject Cons py_iter_def enrich_matches_reject)
    qed
  next
    case (JArray xs)
    show ?thesis
    proof (cases "list_all well_formed_match xs")
      case True
      then show ?thesis
        by (simp add: run JArray py_iter_def enrich_matches_ok)
    next
      case False
      then show ?thesis
        by (simp add: run JArray py_iter_def enrich_matches_fails)
    qed
  qed
next
  show "(\<exists>signs. fst (gemini_match_signs env t) = (Some signs, None)) \<or>
        (\<exists>e. fst (gemini_match_signs env t) = (None, Some e))"
    by (rule gemini_result_shape)
next
  fix kvs raw
  assume h: "map_of kvs ''text'' = Some (JString raw) \<and> str_strip raw \<noteq> [] \<and>
      \<not> truthy (dict_get kvs ''force_fingerspell'' (JBool False)) \<and>
      fst (fst (gemini_match_signs env (take 2000 (str_strip raw)))) = None"
  let ?t = "take 2000 (str_strip raw)"
  let ?signs = "with_videos env (local_match_signs ?t)"
  obtain e sent where g: "gemini_match_signs env ?t = ((None, e), sent)"
    using h by (metis prod.collapse)
  have sent: "GEMINI_API_KEY env \<noteq> [] \<Longrightarrow> sent = [?t]"
    using gemini_sends_when_keyed [of env ?t] g by simp
  have run: "match_signs env (Body (JObject kvs)) = match_signs_text env kvs raw"
    using h by (simp add: match_signs_valid_text)
  have resp: "match_signs env (Body (JObject kvs)) =
           (\<lparr>status = 200, resp_signs = Some ?signs, resp_method = Some ''local'',
             resp_text = Some ?t, resp_error = None\<rparr>,
            if truthy (dict_get kvs ''use_ai'' (JBool True)) \<and> GEMINI_API_KEY env \<noteq> []
            then [?t] else [])"
    unfolding run using h sent
    by (simp add: match_signs_text_def Let_def g local_response_def ok_response_def)
  have clear: "map (\<lambda>m. m\<lparr>video_url := None, letter_videos := None\<rparr>) ?signs = local_match_signs ?t"
    by (simp only: with_videos_clear local_results_clear)
  have plain: "(\<forall>fns. videos_dir env \<noteq> Listing fns) \<longrightarrow> ?signs = local_match_signs ?t"
    by (simp add: with_videos_no_listing)
  show "\<exists>signs.
         match_signs env (Body (JObject kvs)) =
           (\<lparr>status = 200, resp_signs = Some signs, resp_method = Some ''local'',
             resp_text = Some ?t, resp_error = None\<rparr>,
            if truthy (dict_get kvs ''use_ai'' (JBool True)) \<and> GEMINI_API_KEY env \<noteq> []
            then [?t] else []) \<and>
         map (\<lambda>m. m\<lparr>video_url := None, letter_videos := None\<rparr>) signs = local_match_signs ?t \<and>
         ((\<forall>fns. videos_dir env \<noteq> Listing fns) \<longrightarrow> signs = local_match_signs ?t)"
    by (intro exI conjI) (rule resp, rule clear, rule plain)
next
  fix req
  show "length (snd (match_signs env req)) \<le> 1"
    by (rule match_signs_sends_at_most_once)
qed

text \<open>
  A service whose reply parses to a list with a well-formed item followed by the number
  5: the enrichment loop fails on the second item, the remote matcher returns \<open>None\<close>
  with the error, and the handler answers with the local match for \<open>hello\<close>.
\<close>

theorem remote_matcher_never_raises_witness:
  "gemini_match_signs
     \<lparr>GEMINI_API_KEY = ''key'', generate_content = (\<lambda>t. Replies ''reply''),
      json_loads = (\<lambda>s. Parsed (JArray [JObject [(''word'', JString ''hello'')], JNumber 5])),
      videos_dir = NotADirectory, url_for = (\<lambda>f. f)\<rparr> ''hello'' =
     ((None, Some (ApiError AttributeError)), [''hello'']) \<and>
   snd (match_signs
     \<lparr>GEMINI_API_KEY = ''key'', generate_content = (\<lambda>t. Replies ''reply''),
      json_loads = (\<lambda>s. Parsed (JArray [JObject [(''word'', JString ''hello'')], JNumber 5])),
      videos_dir = NotADirectory, url_for = (\<lambda>f. f)\<rparr>
     (Body (JObject [(''text'', JString ''hello'')]))) = [''hello''] \<and>
   fst (match_signs
     \<lparr>GEMINI_API_KEY = ''key'', generate_content = (\<lambda>t. Replies ''reply''),
      json_loads = (\<lambda>s. Parsed (JArray [JObject [(''word'', JString ''hello'')], JNumber 5])),
      videos_dir = NotADirectory, url_for = (\<lambda>f. f)\<rparr>
     (Body (JObject [(''text'', JString ''hello'')]))) =
     \<lparr>status = 200, resp_signs = Some (local_match_signs ''hello''), resp_method = Some ''local'',
      resp_text = Some ''hello'', resp_error = None\<rparr> \<and>
   map word (local_match_signs ''hello'') = [''hello''] \<and>
   map confidence (local_match_signs ''hello'') = [JNumber 1.0]"
proof -
  let ?env = "\<lparr>GEMINI_API_KEY = ''key'', generate_content = (\<lambda>t. Replies ''reply''),
      json_loads = (\<lambda>s. Parsed (JArray [JObject [(''word'', JString ''hello'')], JNumber 5])),
      videos_dir = NotADirectory, url_for = (\<lambda>f. f)\<rparr>"
  let ?kvs = "[(''text'', JString ''hello'')]"
  note inst = remote_matcher_never_raises [of ?env "''hello''"]
  have strip: "str_strip ''hello'' = ''hello''"
    by code_simp
  have cut: "take 2000 ''hello'' = ''hello''"
    by simp
  have g: "gemini_match_signs ?env ''hello'' = ((None, Some (ApiError AttributeError)), [''hello''])"
    using inst [THEN conjunct2, THEN conjunct2, THEN conjunct2, THEN conjunct1, THEN spec, THEN spec,
        of "''reply''" "JArray [JObject [(''word'', JString ''hello'')], JNumber 5]"]
    by (simp add: well_formed_match_def)
  have hyp: "map_of ?kvs ''text'' = Some (JString ''hello'') \<and> str_strip ''hello'' \<noteq> [] \<and>
      \<not> truthy (dict_get ?kvs ''force_fingerspell'' (JBool False)) \<and>
      fst (fst (gemini_match_signs ?env (take 2000 (str_strip ''hello'')))) = None"
    by (simp add: strip cut g dict_get_def truthy_def)
  from inst [THEN conjunct2, THEN conjunct2, THEN conjunct2, THEN conjunct2, THEN conjunct2,
        THEN conjunct1, THEN spec, THEN spec, THEN mp, OF hyp]
  obtain signs where r: "match_signs ?env (Body (JObject ?kvs)) =
           (\<lparr>status = 200, resp_signs = Some signs, resp_method = Some ''local'',
             resp_text = Some (take 2000 (str_strip ''hello'')), resp_error = None\<rparr>,
            if truthy (dict_get ?kvs ''use_ai'' (JBool True)) \<and> GEMINI_API_KEY ?env \<noteq> []
            then [take 2000 (str_strip ''hello'')] else [])"
    and plain: "(\<forall>fns. videos_dir ?env \<noteq> Listing fns) \<longrightarrow>
            signs = local_match_signs (take 2000 (str_strip ''hello''))"
    by blast
  have signs: "signs = local_match_signs ''hello''"
    using plain by (simp add: strip cut)
  have sent: "snd (match_signs ?env (Body (JObject ?kvs))) = [''hello'']"
    unfolding r by (simp add: strip cut dict_get_def truthy_def)
  have resp: "fst (match_signs ?env (Body (JObject ?kvs))) =
     \<lparr>status = 200, resp_signs = Some (local_match_signs ''hello''), resp_method = Some ''local'',
      resp_text = Some ''hello'', resp_error = None\<rparr>"
    unfolding r by (simp add: strip cut signs)
  have w: "map word (local_match_signs ''hello'') = [''hello'']"
    by code_simp
  have c: "map confidence (local_match_signs ''hello'') = [JNumber 1.0]"
    by code_simp
  from g sent resp w c show ?thesis
    by (simp only: simp_thms)
qed

text \<open>
  C7. A POST to \<open>/api/match\<close> whose JSON object has no \<open>text\<close>, a \<open>text\<close> that is not a
  string, or a \<open>text\<close> that is empty after trimming is answered with status 400, an
  empty \<open>signs\<close> list, method \<open>none\<close> and an error string. A response with status 200
  carries one of the methods \<open>fingerspell\<close>, \<open>gemini\<close>, \<open>local\<close> and no error, so the two
  cannot be confused even when the \<open>signs\<close> list of the 200 response is empty.
\<close>

theorem invalid_text_is_rejected:
  "(\<forall>kvs. (map_of kvs ''text'' = None \<or>
            (\<exists>v. map_of kvs ''text'' = Some v \<and> (\<forall>s. v \<noteq> JString s)) \<or>
            (\<exists>s. map_of kvs ''text'' = Some (JString s) \<and> str_strip s = [])) \<longrightarrow>
      match_signs env (Body (JObject kvs)) =
        (\<lparr>status = 400, resp_signs = Some [], resp_method = Some ''none'', resp_text = None,
          resp_error = Some ''No text provided''\<rparr>, [])) \<and>
   (\<forall>req. status (fst (match_signs env req)) = 200 \<longrightarrow>
      resp_method (fst (match_signs env req)) \<in> {Some ''fingerspell'', Some ''gemini'', Some ''local''} \<and>
      resp_signs (fst (match_signs env req)) \<noteq> None \<and>
      resp_error (fst (match_signs env req)) = None) \<and>
   (\<forall>req. resp_method (fst (match_signs env req)) = Some ''none'' \<longrightarrow>
      status (fst (match_signs env req)) = 400 \<and> resp_error (fst (match_signs env req)) \<noteq> None)"
proof (intro conjI allI impI)
  fix kvs
  assume "map_of kvs ''text'' = None \<or>
          (\<exists>v. map_of kvs ''text'' = Some v \<and> (\<forall>s. v \<noteq> JString s)) \<or>
          (\<exists>s. map_of kvs ''text'' = Some (JString s) \<and> str_strip s = [])"
  then show "match_signs env (Body (JObject kvs)) =
        (\<lparr>status = 400, resp_signs = Some [], resp_method = Some ''none'', resp_text = None,
          resp_error = Some ''No text provided''\<rparr>, [])"
    by (auto simp: match_signs_def split: json.splits)
next
  fix req
  assume ok: "status (fst (match_signs env req)) = 200"
  then obtain kvs raw where run: "match_signs env req = match_signs_text env kvs raw"
    by (auto simp: match_signs_def error_response_def
        split: request_body.splits json.splits option.splits if_splits)
  show "resp_method (fst (match_signs env req)) \<in> {Some ''fingerspell'', Some ''gemini'', Some ''local''}"
    and "resp_signs (fst (match_signs env req)) \<noteq> None"
    and "resp_error (fst (match_signs env req)) = None"
    unfolding run using match_signs_text_ok [of env kvs raw] by blast+
next
  fix req
  assume none: "resp_method (fst (match_signs env req)) = Some ''none''"
  have "resp_method (fst (match_signs_text env kvs raw)) \<noteq> Some ''none''" for kvs raw
    using match_signs_text_ok [of env kvs raw] by auto
  then show "status (fst (match_signs env req)) = 400"
    and "resp_error (fst (match_signs env req)) \<noteq> None"
    using none
    by (auto simp: match_signs_def error_response_def
        split: request_body.splits json.splits option.splits if_splits)
qed

theorem invalid_text_is_rejected_witness:
  "match_signs
     \<lparr>GEMINI_API_KEY = [], generate_content = (\<lambda>t. Raises ''unused''),
      json_loads = (\<lambda>s. JSONDecodeError s), videos_dir = NotADirectory, url_for = (\<lambda>f. f)\<rparr>
     (Body (JObject [(''text'', JString ''  '')])) =
   (\<lparr>status = 400, resp_signs = Some [], resp_method = Some ''none'', resp_text = None,
     resp_error = Some ''No text provided''\<rparr>, []) \<and>
   match_signs
     \<lparr>GEMINI_API_KEY = [], generate_content = (\<lambda>t. Raises ''unused''),
      json_loads = (\<lambda>s. JSONDecodeError s), videos_dir = NotADirectory, url_for = (\<lambda>f. f)\<rparr>
     (Body (JObject [(''text'', JString ''42'')])) =
   (\<lparr>status = 200, resp_signs = Some [], resp_method = Some ''local'', resp_text = Some ''42'',
     resp_error = None\<rparr>, [])"
proof -
  let ?env = "\<lparr>GEMINI_API_KEY = [], generate_content = (\<lambda>t. Raises ''unused''),
      json_loads = (\<lambda>s. JSONDecodeError s), videos_dir = NotADirectory, url_for = (\<lambda>f. f)\<rparr>"
  have blank: "str_strip ''  '' = []" and digits: "str_strip ''42'' = ''42''"
    by code_simp+
  have none: "local_match_signs ''42'' = []"
    by code_simp
  have "match_signs ?env (Body (JObject [(''text'', JString ''  '')])) =
   (\<lparr>status = 400, resp_signs = Some [], resp_method = Some ''none'', resp_text = None,
     resp_error = Some ''No text provided''\<rparr>, [])"
    using invalid_text_is_rejected [of ?env, THEN conjunct1, THEN spec,
        of "[(''text'', JString ''  '')]"] blank
    by simp
  moreover have "match_signs ?env (Body (JObject [(''text'', JString ''42'')])) =
   (\<lparr>status = 200, resp_signs = Some [], resp_method = Some ''local'', resp_text = Some ''42'',
     resp_error = None\<rparr>, [])"
    by (simp add: match_signs_valid_text digits match_signs_text_def Let_def dict_get_def
        truthy_def local_response_def ok_response_def with_videos_def
        add_video_urls_to_signs_def none)
  ultimately show ?thesis
    by (simp only: simp_thms)
qed

text \<open>
  C8. When \<open>force_fingerspell\<close> is true the handler sends nothing to the service and
  answers with status 200, method \<open>fingerspell\<close>, the trimmed text cut to 2000 characters,
  and one result per token of that text that has a letter, in order: word and
  \<open>matched_from\<close> are the token, the category is \<open>fingerspelled\<close>, the letters are the
  token's alphabetic characters, the confidence is 1.0, and no vocabulary entry is
  consulted; tokens without letters are skipped. The tokens are cut at every character
  outside \<open>A-Za-z0-9\<close>: the empty text has none, a non-empty run of alphanumerics is one
  token, and at a non-alphanumeric character the tokens are those of the part before it
  followed by those of the part after it. For the text \<open>hello\<close> there is exactly one
  result, the fingerspelled \<open>hello\<close>.
\<close>

theorem forced_fingerspelling:
  "(\<forall>kvs raw ws. map_of kvs ''text'' = Some (JString raw) \<and> str_strip raw \<noteq> [] \<and>
      truthy (dict_get kvs ''force_fingerspell'' (JBool False)) \<and>
      ws = filter (\<lambda>w. filter isalpha w \<noteq> []) (forced_words (take 2000 (str_strip raw))) \<longrightarrow>
      (\<exists>signs.
         match_signs env (Body (JObject kvs)) =
           (\<lparr>status = 200, resp_signs = Some signs, resp_method = Some ''fingerspell'',
             resp_text = Some (take 2000 (str_strip raw)), resp_error = None\<rparr>, []) \<and>
         map word signs = ws \<and>
         map matched_from signs = map JString ws \<and>
         map category signs = map (\<lambda>w. ''fingerspelled'') ws \<and>
         map letters signs = map (\<lambda>w. Some (filter isalpha w)) ws \<and>
         map confidence signs = map (\<lambda>w. JNumber 1.0) ws \<and>
         map synonyms signs = map (\<lambda>w. []) ws \<and>
         map description signs =
           map (\<lambda>w. ''Finger-spell the word '' @ [CHR 0x27] @ w @ [CHR 0x27]) ws)) \<and>
   forced_words [] = [] \<and>
   (\<forall>w. w \<noteq> [] \<and> list_all ascii_alnum w \<longrightarrow> forced_words w = [w]) \<and>
   (\<forall>u d v. \<not> ascii_alnum d \<longrightarrow> forced_words (u @ d # v) = forced_words u @ forced_words v) \<and>
   (\<forall>s. (\<forall>w \<in> set (forced_words s). w \<noteq> [] \<and> list_all ascii_alnum w) \<and>
        concat (forced_words s) = filter ascii_alnum s) \<and>
   forced_words ''a-b c_d'' = [''a'', ''b'', ''c'', ''d''] \<and>
   (\<exists>m. match_signs env
          (Body (JObject [(''text'', JString ''hello''), (''force_fingerspell'', JBool True)])) =
        (\<lparr>status = 200, resp_signs = Some [m], resp_method = Some ''fingerspell'',
          resp_text = Some ''hello'', resp_error = None\<rparr>, []) \<and>
        word m = ''hello'' \<and> category m = ''fingerspelled'' \<and> letters m = Some ''hello'' \<and>
        confidence m = JNumber 1.0 \<and> matched_from m = JString ''hello'')"
proof -
  have general: "\<exists>signs.
         match_signs env (Body (JObject kvs)) =
           (\<lparr>status = 200, resp_signs = Some signs, resp_method = Some ''fingerspell'',
             resp_text = Some (take 2000 (str_strip raw)), resp_error = None\<rparr>, []) \<and>
         map word signs = ws \<and>
         map matched_from signs = map JString ws \<and>
         map category signs = map (\<lambda>w. ''fingerspelled'') ws \<and>
         map letters signs = map (\<lambda>w. Some (filter isalpha w)) ws \<and>
         map confidence signs = map (\<lambda>w. JNumber 1.0) ws \<and>
         map synonyms signs = map (\<lambda>w. []) ws \<and>
         map description signs =
           map (\<lambda>w. ''Finger-spell the word '' @ [CHR 0x27] @ w @ [CHR 0x27]) ws"
    if h: "map_of kvs ''text'' = Some (JString raw) \<and> str_strip raw \<noteq> [] \<and>
      truthy (dict_get kvs ''force_fingerspell'' (JBool False)) \<and>
      ws = filter (\<lambda>w. filter isalpha w \<noteq> []) (forced_words (take 2000 (str_strip raw)))"
    for kvs raw ws
  proof -
    let ?t = "take 2000 (str_strip raw)"
    let ?plain = "map (\<lambda>w. fingerspelled w (filter isalpha w) 1.0) ws"
    let ?signs = "with_videos env ?plain"
    have plain: "forced_signs (forced_words ?t) = ?plain"
      using h by (simp add: forced_signs_eq)
    have "match_signs env (Body (JObject kvs)) = match_signs_text env kvs raw"
      using h by (simp add: match_signs_valid_text)
    then have resp: "match_signs env (Body (JObject kvs)) =
           (\<lparr>status = 200, resp_signs = Some ?signs, resp_method = Some ''fingerspell'',
             resp_text = Some ?t, resp_error = None\<rparr>, [])"
      using h by (simp add: match_signs_text_def Let_def plain ok_response_def)
    have "map word ?signs = ws"
      and "map matched_from ?signs = map JString ws"
      and "map category ?signs = map (\<lambda>w. ''fingerspelled'') ws"
      and "map letters ?signs = map (\<lambda>w. Some (filter isalpha w)) ws"
      and "map confidence ?signs = map (\<lambda>w. JNumber 1.0) ws"
      and "map synonyms ?signs = map (\<lambda>w. []) ws"
      and "map description ?signs =
           map (\<lambda>w. ''Finger-spell the word '' @ [CHR 0x27] @ w @ [CHR 0x27]) ws"
      by (simp_all add: with_videos_keeps with_videos_keeps_text fingerspelled_def comp_def)
    with resp show ?thesis
      by (intro exI [of _ ?signs] conjI)
  qed
  have tokens_ok: "(\<forall>w \<in> set (forced_words s). w \<noteq> [] \<and> list_all ascii_alnum w) \<and>
        concat (forced_words s) = filter ascii_alnum s" for s
    using forced_words_alnum [of _ s] forced_words_concat [of s] by blast
  have example: "forced_words ''a-b c_d'' = [''a'', ''b'', ''c'', ''d'']"
    by code_simp
  have hello: "\<exists>m. match_signs env
          (Body (JObject [(''text'', JString ''hello''), (''force_fingerspell'', JBool True)])) =
        (\<lparr>status = 200, resp_signs = Some [m], resp_method = Some ''fingerspell'',
          resp_text = Some ''hello'', resp_error = None\<rparr>, []) \<and>
        word m = ''hello'' \<and> category m = ''fingerspelled'' \<and> letters m = Some ''hello'' \<and>
        confidence m = JNumber 1.0 \<and> matched_from m = JString ''hello''"
  proof -
    let ?kvs = "[(''text'', JString ''hello''), (''force_fingerspell'', JBool True)]"
    have strip: "str_strip ''hello'' = ''hello''"
      by code_simp
    have cut: "take 2000 ''hello'' = ''hello''"
      by simp
    have ws: "filter (\<lambda>w. filter isalpha w \<noteq> []) (forced_words ''hello'') = [''hello'']"
      by code_simp
    have ls: "filter isalpha ''hello'' = ''hello''"
      by code_simp
    have hyp: "map_of ?kvs ''text'' = Some (JString ''hello'') \<and> str_strip ''hello'' \<noteq> [] \<and>
      truthy (dict_get ?kvs ''force_fingerspell'' (JBool False)) \<and>
      [''hello''] = filter (\<lambda>w. filter isalpha w \<noteq> []) (forced_words (take 2000 (str_strip ''hello'')))"
      by (simp only: strip cut ws) (simp add: dict_get_def truthy_def)
    from general [OF hyp] obtain signs where
      all: "match_signs env (Body (JObject ?kvs)) =
           (\<lparr>status = 200, resp_signs = Some signs, resp_method = Some ''fingerspell'',
             resp_text = Some (take 2000 (str_strip ''hello'')), resp_error = None\<rparr>, []) \<and>
         map word signs = [''hello''] \<and>
         map matched_from signs = map JString [''hello''] \<and>
         map category signs = map (\<lambda>w. ''fingerspelled'') [''hello''] \<and>
         map letters signs = map (\<lambda>w. Some (filter isalpha w)) [''hello''] \<and>
         map confidence signs = map (\<lambda>w. JNumber 1.0) [''hello''] \<and>
         map synonyms signs = map (\<lambda>w. []) [''hello''] \<and>
         map description signs =
           map (\<lambda>w. ''Finger-spell the word '' @ [CHR 0x27] @ w @ [CHR 0x27]) [''hello'']" ..
    note r = all [THEN conjunct1]
    note f = all [THEN conjunct2, THEN conjunct1]
      all [THEN conjunct2, THEN conjunct2, THEN conjunct1]
      all [THEN conjunct2, THEN conjunct2, THEN conjunct2, THEN conjunct1]
      all [THEN conjunct2, THEN conjunct2, THEN conjunct2, THEN conjunct2, THEN conjunct1]
      all [THEN conjunct2, THEN conjunct2, THEN conjunct2, THEN conjunct2, THEN conjunct2, THEN conjunct1]
    from f(1) obtain m where m: "signs = [m]"
      by (cases signs) auto
    have fields: "word m = ''hello'' \<and> category m = ''fingerspelled'' \<and> letters m = Some ''hello'' \<and>
        confidence m = JNumber 1.0 \<and> matched_from m = JString ''hello''"
      using f unfolding m by (simp add: isalpha_def)
    have "match_signs env (Body (JObject ?kvs)) =
        (\<lparr>status = 200, resp_signs = Some [m], resp_method = Some ''fingerspell'',
          resp_text = Some ''hello'', resp_error = None\<rparr>, [])"
      using r unfolding m strip cut .
    then show ?thesis
      using fields by (intro exI [of _ m] conjI) simp_all
  qed
  show ?thesis
  proof (intro conjI)
    show "\<forall>kvs raw ws. map_of kvs ''text'' = Some (JString raw) \<and> str_strip raw \<noteq> [] \<and>
      truthy (dict_get kvs ''force_fingerspell'' (JBool False)) \<and>
      ws = filter (\<lambda>w. filter isalpha w \<noteq> []) (forced_words (take 2000 (str_strip raw))) \<longrightarrow>
      (\<exists>signs.
         match_signs env (Body (JObject kvs)) =
           (\<lparr>status = 200, resp_signs = Some signs, resp_method = Some ''fingerspell'',
             resp_text = Some (take 2000 (str_strip raw)), resp_error = None\<rparr>, []) \<and>
         map word signs = ws \<and>
         map matched_from signs = map JString ws \<and>
         map category signs = map (\<lambda>w. ''fingerspelled'') ws \<and>
         map letters signs = map (\<lambda>w. Some (filter isalpha w)) ws \<and>
         map confidence signs = map (\<lambda>w. JNumber 1.0) ws \<and>
         map synonyms signs = map (\<lambda>w. []) ws \<and>
         map description signs =
           map (\<lambda>w. ''Finger-spell the word '' @ [CHR 0x27] @ w @ [CHR 0x27]) ws)"
      by (intro allI impI) (rule general)
    show "forced_words [] = []"
      by (rule forced_words_empty)
    show "\<forall>w. w \<noteq> [] \<and> list_all ascii_alnum w \<longrightarrow> forced_words w = [w]"
      using forced_words_run by blast
    show "\<forall>u d v. \<not> ascii_alnum d \<longrightarrow> forced_words (u @ d # v) = forced_words u @ forced_words v"
      using forced_words_cut by blast
    show "\<forall>s. (\<forall>w \<in> set (forced_words s). w \<noteq> [] \<and> list_all ascii_alnum w) \<and>
        concat (forced_words s) = filter ascii_alnum s"
      by (intro allI) (rule tokens_ok)
    show "forced_words ''a-b c_d'' = [''a'', ''b'', ''c'', ''d'']"
      by (rule example)
    show "\<exists>m. match_signs env
          (Body (JObject [(''text'', JString ''hello''), (''force_fingerspell'', JBool True)])) =
        (\<lparr>status = 200, resp_signs = Some [m], resp_method = Some ''fingerspell'',
          resp_text = Some ''hello'', resp_error = None\<rparr>, []) \<and>
        word m = ''hello'' \<and> category m = ''fingerspelled'' \<and> letters m = Some ''hello'' \<and>
        confidence m = JNumber 1.0 \<and> matched_from m = JString ''hello''"
      by (rule hello)
  qed
qed

theorem forced_fingerspelling_witness:
  "match_signs
     \<lparr>GEMINI_API_KEY = ''key'', generate_content = (\<lambda>t. Replies ''reply''),
      json_loads = (\<lambda>s. Parsed (JArray [])), videos_dir = NotADirectory, url_for = (\<lambda>f. f)\<rparr>
     (Body (JObject [(''text'', JString '' Hello, 42 a-b! ''), (''force_fingerspell'', JBool True)])) =
   (\<lparr>status = 200,
     resp_signs = Some [fingerspelled ''Hello'' ''Hello'' 1.0, fingerspelled ''a'' ''a'' 1.0,
                        fingerspelled ''b'' ''b'' 1.0],
     resp_method = Some ''fingerspell'', resp_text = Some ''Hello, 42 a-b!'',
     resp_error = None\<rparr>, []) \<and>
   forced_words ''Hello, 42 a-b!'' = [''Hello'', ''42'', ''a'', ''b'']"
proof -
  let ?env = "\<lparr>GEMINI_API_KEY = ''key'', generate_content = (\<lambda>t. Replies ''reply''),
      json_loads = (\<lambda>s. Parsed (JArray [])), videos_dir = NotADirectory, url_for = (\<lambda>f. f)\<rparr>"
  let ?kvs = "[(''text'', JString '' Hello, 42 a-b! ''), (''force_fingerspell'', JBool True)]"
  let ?ws = "[''Hello'', ''a'', ''b'']"
  have strip: "str_strip '' Hello, 42 a-b! '' = ''Hello, 42 a-b!''"
    by code_simp
  have cut: "take 2000 ''Hello, 42 a-b!'' = ''Hello, 42 a-b!''"
    by simp
  have toks: "forced_words ''Hello, 42 a-b!'' = [''Hello'', ''42'', ''a'', ''b'']"
    by code_simp
  have ws: "filter (\<lambda>w. filter isalpha w \<noteq> []) (forced_words ''Hello, 42 a-b!'') = ?ws"
    by code_simp
  have plain: "forced_signs (forced_words ''Hello, 42 a-b!'') =
                 [fingerspelled ''Hello'' ''Hello'' 1.0, fingerspelled ''a'' ''a'' 1.0,
                  fingerspelled ''b'' ''b'' 1.0]"
    by code_simp
  have hyp: "map_of ?kvs ''text'' = Some (JString '' Hello, 42 a-b! '') \<and>
      str_strip '' Hello, 42 a-b! '' \<noteq> [] \<and>
      truthy (dict_get ?kvs ''force_fingerspell'' (JBool False)) \<and>
      ?ws = filter (\<lambda>w. filter isalpha w \<noteq> [])
              (forced_words (take 2000 (str_strip '' Hello, 42 a-b! '')))"
    by (simp only: strip cut ws) (simp add: dict_get_def truthy_def)
  from forced_fingerspelling [of ?env, THEN conjunct1, THEN spec, THEN spec, THEN spec, THEN mp, OF hyp]
  obtain signs where
    all: "match_signs ?env (Body (JObject ?kvs)) =
           (\<lparr>status = 200, resp_signs = Some signs, resp_method = Some ''fingerspell'',
             resp_text = Some (take 2000 (str_strip '' Hello, 42 a-b! '')), resp_error = None\<rparr>, []) \<and>
         map word signs = ?ws \<and>
         map matched_from signs = map JString ?ws \<and>
         map category signs = map (\<lambda>w. ''fingerspelled'') ?ws \<and>
         map letters signs = map (\<lambda>w. Some (filter isalpha w)) ?ws \<and>
         map confidence signs = map (\<lambda>w. JNumber 1.0) ?ws \<and>
         map synonyms signs = map (\<lambda>w. []) ?ws \<and>
         map description signs =
           map (\<lambda>w. ''Finger-spell the word '' @ [CHR 0x27] @ w @ [CHR 0x27]) ?ws" ..
  from all [THEN conjunct1] have sent: "snd (match_signs ?env (Body (JObject ?kvs))) = []"
    by simp
  have direct: "match_signs ?env (Body (JObject ?kvs)) =
      (\<lparr>status = 200,
        resp_signs = Some (with_videos ?env (forced_signs (forced_words ''Hello, 42 a-b!''))),
        resp_method = Some ''fingerspell'', resp_text = Some ''Hello, 42 a-b!'',
        resp_error = None\<rparr>, [])"
    by (simp only: match_signs_valid_text [of ?kvs "'' Hello, 42 a-b! ''" ?env, unfolded strip, simplified]
        match_signs_text_def Let_def strip cut)
      (simp add: dict_get_def truthy_def ok_response_def)
  have same: "with_videos ?env X = X" for X
    by (simp add: with_videos_def add_video_urls_to_signs_def)
  have "match_signs ?env (Body (JObject ?kvs)) =
   (\<lparr>status = 200,
     resp_signs = Some [fingerspelled ''Hello'' ''Hello'' 1.0, fingerspelled ''a'' ''a'' 1.0,
                        fingerspelled ''b'' ''b'' 1.0],
     resp_method = Some ''fingerspell'', resp_text = Some ''Hello, 42 a-b!'',
     resp_error = None\<rparr>, snd (match_signs ?env (Body (JObject ?kvs))))"
    unfolding sent unfolding direct same plain ..
  then show ?thesis
    unfolding sent using toks by (intro conjI)
qed


end
